theory Spec2Isabelle
  imports Complex_Main "HOL-Library.Sublist"
begin

section \<open>Market snapshots of the Binance public REST API\<close>

text \<open>
  A shallow embedding of \<^verbatim>\<open>rest_api/snapshot.py\<close> and \<^verbatim>\<open>rest_api/main.py\<close>, with
  the parts of \<^verbatim>\<open>rest_api/binance_client.py\<close> and \<^verbatim>\<open>rest_api/config.py\<close> they use.

  Modelling decisions, valid for the whole development:
  \<^item> A Python \<^verbatim>\<open>float\<close> is a rational number (\<^typ>\<open>rat\<close>): the arithmetic is exact and there
    is no infinity and no NaN. Division by zero raises \<^verbatim>\<open>ZeroDivisionError\<close>, as in Python.
  \<^item> A string holds ASCII characters; \<^verbatim>\<open>str.lower\<close> and \<^verbatim>\<open>str.upper\<close> act on the 26 letters.
  \<^item> An exception is a value of type \<open>exn\<close>; a call that may raise returns \<open>exn + 'a\<close>.
  \<^item> The remote server and the HTTP transport (\<^verbatim>\<open>httpx\<close>) are not part of the repository.
    A \<open>market\<close> fixes what each accessor of \<^verbatim>\<open>BinanceClient\<close> returns or raises, after the
    parsing the accessor does.
  \<^item> The world outside the process is a record: the wall clock, the file system, the standard
    output, and a log of the calls made on the collaborators (kept only to state which
    operations a run invokes).
\<close>

subsection \<open>Python values, JSON values, exceptions\<close>

datatype pyval =
    PNone
  | PBool bool
  | PInt int
  | PFloat rat
  | PStr string
  | PList "pyval list"
  | PTuple "pyval list"
  | PDict "(string \<times> pyval) list"

text \<open>
  A dictionary is the list of its items in insertion order; the keys of a Python dictionary
  are distinct, which \<open>wf_pyval\<close> records. Equality of two \<open>PDict\<close> values also compares
  the order of the items, so it implies Python's \<^verbatim>\<open>==\<close>.
\<close>

fun wf_pyval :: "pyval \<Rightarrow> bool" where
  "wf_pyval (PList vs) = list_all wf_pyval vs"
| "wf_pyval (PTuple vs) = list_all wf_pyval vs"
| "wf_pyval (PDict kvs) = (distinct (map fst kvs) \<and> list_all (\<lambda>kv. wf_pyval (snd kv)) kvs)"
| "wf_pyval v = True"

datatype json =
    JNull
  | JBool bool
  | JInt int
  | JFloat rat
  | JString string
  | JArray "json list"
  | JObject "(string \<times> json) list"

type_synonym path = "string list"

datatype exn =
    Raised string string
  | ZeroDivisionError
  | TypeError
  | KeyError string
  | FileExistsError path
  | NotADirectoryError path
  | FileNotFoundError path
  | IsADirectoryError path
  | JSONDecodeError

text \<open>
  \<open>Raised cls msg\<close> is an exception of class \<open>cls\<close> raised by a library below the code of the
  repository: below the accessors of the client (by the transport, by \<^verbatim>\<open>raise_for_status\<close>
  or by the parsing of a response), or by the reading and decoding of a stored file.
\<close>

fun class_name :: "exn \<Rightarrow> string" where
  "class_name (Raised cls msg) = cls"
| "class_name ZeroDivisionError = ''ZeroDivisionError''"
| "class_name TypeError = ''TypeError''"
| "class_name (KeyError k) = ''KeyError''"
| "class_name (FileExistsError p) = ''FileExistsError''"
| "class_name (NotADirectoryError p) = ''NotADirectoryError''"
| "class_name (FileNotFoundError p) = ''FileNotFoundError''"
| "class_name (IsADirectoryError p) = ''IsADirectoryError''"
| "class_name JSONDecodeError = ''JSONDecodeError''"

subsection \<open>The dataclasses of \<^verbatim>\<open>binance_client.py\<close>\<close>

record TickerPrice =
  tp_symbol :: string
  tp_price :: rat

record Ticker24h =
  t24_symbol :: string
  price_change :: rat
  price_change_percent :: rat
  weighted_avg_price :: rat
  prev_close_price :: rat
  last_price :: rat
  t24_bid_price :: rat
  t24_ask_price :: rat
  open_price :: rat
  high_price :: rat
  low_price :: rat
  t24_volume :: rat
  t24_quote_volume :: rat
  t24_open_time :: int
  t24_close_time :: int
  t24_trade_count :: int

record OrderBookDepth =
  ob_symbol :: string
  bids :: "(rat \<times> rat) list"
  asks :: "(rat \<times> rat) list"
  last_update_id :: int

record RecentTrade =
  trade_id :: int
  rt_price :: rat
  qty :: rat
  quote_qty :: rat
  rt_time :: int
  is_buyer_maker :: bool

record Kline =
  k_open_time :: int
  k_open :: rat
  k_high :: rat
  k_low :: rat
  k_close :: rat
  k_volume :: rat
  k_close_time :: int
  k_quote_volume :: rat
  k_trade_count :: int
  taker_buy_volume :: rat
  taker_buy_quote_volume :: rat

text \<open>\<^verbatim>\<open>get_book_ticker\<close> returns a dictionary of five entries, built from these values.\<close>

record BookTicker =
  bt_symbol :: string
  bid_price :: rat
  bid_qty :: rat
  ask_price :: rat
  ask_qty :: rat

definition book_ticker_dict :: "BookTicker \<Rightarrow> pyval" where
  "book_ticker_dict b = PDict
     [(''symbol'', PStr (bt_symbol b)),
      (''bid_price'', PFloat (bid_price b)),
      (''bid_qty'', PFloat (bid_qty b)),
      (''ask_price'', PFloat (ask_price b)),
      (''ask_qty'', PFloat (ask_qty b))]"

text \<open>\<^verbatim>\<open>dataclasses.asdict\<close> on a \<^verbatim>\<open>Kline\<close>: the fields in declaration order.\<close>

definition asdict :: "Kline \<Rightarrow> pyval" where
  "asdict k = PDict
     [(''open_time'', PInt (k_open_time k)),
      (''open'', PFloat (k_open k)),
      (''high'', PFloat (k_high k)),
      (''low'', PFloat (k_low k)),
      (''close'', PFloat (k_close k)),
      (''volume'', PFloat (k_volume k)),
      (''close_time'', PInt (k_close_time k)),
      (''quote_volume'', PFloat (k_quote_volume k)),
      (''trade_count'', PInt (k_trade_count k)),
      (''taker_buy_volume'', PFloat (taker_buy_volume k)),
      (''taker_buy_quote_volume'', PFloat (taker_buy_quote_volume k))]"

subsection \<open>Numbers, slices and dictionary access\<close>

text \<open>The numeric value of an \<^verbatim>\<open>int\<close> or a \<^verbatim>\<open>float\<close>.\<close>

fun num :: "pyval \<Rightarrow> rat" where
  "num (PInt i) = of_int i"
| "num (PFloat x) = x"
| "num v = 0"

fun is_num :: "pyval \<Rightarrow> bool" where
  "is_num (PInt i) = True"
| "is_num (PFloat x) = True"
| "is_num v = False"

text \<open>
  \<^verbatim>\<open>sum(...)\<close> over floats starts from the \<^verbatim>\<open>int\<close> 0: the sum of no float is the integer 0,
  the sum of some floats is a float.
\<close>

definition sum_floats :: "rat list \<Rightarrow> pyval" where
  "sum_floats xs = (if xs = [] then PInt 0 else PFloat (sum_list xs))"

text \<open>The slice \<^verbatim>\<open>xs[-n:]\<close> for a positive \<open>n\<close>.\<close>

definition last_n :: "nat \<Rightarrow> 'a list \<Rightarrow> 'a list" where
  "last_n n xs = drop (length xs - n) xs"

definition dict_get :: "pyval \<Rightarrow> string \<Rightarrow> pyval option" where
  "dict_get d k = (case d of PDict kvs \<Rightarrow> map_of kvs k | _ \<Rightarrow> None)"

text \<open>\<open>field d ks\<close> follows the keys \<open>ks\<close> down nested dictionaries.\<close>

fun field :: "pyval \<Rightarrow> string list \<Rightarrow> pyval option" where
  "field d [] = Some d"
| "field d (k # ks) = (case dict_get d k of None \<Rightarrow> None | Some v \<Rightarrow> field v ks)"

subsection \<open>The derived analytics of \<^verbatim>\<open>create_market_snapshot\<close>\<close>

definition trades_buy :: "RecentTrade list \<Rightarrow> int" where
  "trades_buy recent_trades = sum_list [1. t \<leftarrow> recent_trades, \<not> is_buyer_maker t]"

definition trades_sell :: "RecentTrade list \<Rightarrow> int" where
  "trades_sell recent_trades = sum_list [1. t \<leftarrow> recent_trades, is_buyer_maker t]"

text \<open>
  The division \<^verbatim>\<open>a / b\<close> of two numbers: a float, or \<^verbatim>\<open>ZeroDivisionError\<close> when \<open>b\<close> is
  zero. The ratios below are the conditional expressions of lines 69, 73 and 110, whose
  divisions may raise as any division does; what they yield is proved, not assumed.
\<close>

definition truediv :: "rat \<Rightarrow> rat \<Rightarrow> exn + pyval" where
  "truediv a b = (if b = 0 then Inl ZeroDivisionError else Inr (PFloat (a / b)))"

definition buy_sell_ratio :: "RecentTrade list \<Rightarrow> exn + pyval" where
  "buy_sell_ratio recent_trades =
     (if trades_sell recent_trades > 0
      then truediv (of_int (trades_buy recent_trades)) (of_int (trades_sell recent_trades))
      else Inr (PInt 0))"

definition total_bid_depth :: "OrderBookDepth \<Rightarrow> pyval" where
  "total_bid_depth order_book = sum_floats [q. (p, q) \<leftarrow> bids order_book]"

definition total_ask_depth :: "OrderBookDepth \<Rightarrow> pyval" where
  "total_ask_depth order_book = sum_floats [q. (p, q) \<leftarrow> asks order_book]"

definition bid_ask_ratio :: "OrderBookDepth \<Rightarrow> exn + pyval" where
  "bid_ask_ratio order_book =
     (if num (total_ask_depth order_book) > 0
      then truediv (num (total_bid_depth order_book)) (num (total_ask_depth order_book))
      else Inr (PInt 0))"

definition spread :: "OrderBookDepth \<Rightarrow> pyval" where
  "spread order_book =
     (if asks order_book \<noteq> [] \<and> bids order_book \<noteq> []
      then PFloat (fst (hd (asks order_book)) - fst (hd (bids order_book)))
      else PInt 0)"

text \<open>
  Line 76: the guard is on the bid side being non-empty; the division then raises
  \<^verbatim>\<open>ZeroDivisionError\<close> when the best bid price is zero.
\<close>

definition spread_percent :: "OrderBookDepth \<Rightarrow> exn + pyval" where
  "spread_percent order_book =
     (if bids order_book \<noteq> []
      then (if fst (hd (bids order_book)) = 0 then Inl ZeroDivisionError
            else Inr (PFloat (num (spread order_book) / fst (hd (bids order_book)) * 100)))
      else Inr (PInt 0))"

definition avg_trade_size :: "RecentTrade list \<Rightarrow> exn + pyval" where
  "avg_trade_size recent_trades =
     (if recent_trades \<noteq> []
      then truediv (num (sum_floats [qty t. t \<leftarrow> recent_trades])) (of_nat (length recent_trades))
      else Inr (PInt 0))"

definition levels :: "(rat \<times> rat) list \<Rightarrow> pyval" where
  "levels ls = PList [PTuple [PFloat p, PFloat q]. (p, q) \<leftarrow> ls]"

text \<open>
  The dictionary literal of lines 79 to 117; \<open>timestamp\<close> is \<^verbatim>\<open>datetime.now().isoformat()\<close>,
  and \<open>bsr\<close>, \<open>bar\<close>, \<open>sp\<close> and \<open>avg\<close> are the values of \<^verbatim>\<open>buy_sell_ratio\<close>,
  \<^verbatim>\<open>bid_ask_ratio\<close>, \<^verbatim>\<open>spread_percent\<close> and of the average trade size.
\<close>

definition snapshot_dict ::
  "string \<Rightarrow> string \<Rightarrow> TickerPrice \<Rightarrow> Ticker24h \<Rightarrow> OrderBookDepth \<Rightarrow> RecentTrade list \<Rightarrow> rat \<Rightarrow>
   pyval \<Rightarrow> Kline list \<Rightarrow> Kline list \<Rightarrow> Kline list \<Rightarrow> pyval \<Rightarrow> pyval \<Rightarrow> pyval \<Rightarrow> pyval \<Rightarrow>
   pyval" where
  "snapshot_dict timestamp symbol ticker_price ticker_24h order_book recent_trades avg_price
     book_ticker klines_1h klines_4h klines_1d bsr bar sp avg = PDict
     [(''timestamp'', PStr timestamp),
      (''symbol'', PStr symbol),
      (''summary'', PDict
        [(''price'', PFloat (tp_price ticker_price)),
         (''avg_price_5m'', PFloat avg_price),
         (''price_change_24h'', PFloat (price_change ticker_24h)),
         (''price_change_percent_24h'', PFloat (price_change_percent ticker_24h)),
         (''high_24h'', PFloat (high_price ticker_24h)),
         (''low_24h'', PFloat (low_price ticker_24h)),
         (''volume_24h'', PFloat (t24_volume ticker_24h)),
         (''quote_volume_24h'', PFloat (t24_quote_volume ticker_24h)),
         (''trade_count_24h'', PInt (t24_trade_count ticker_24h))]),
      (''book_ticker'', book_ticker),
      (''spread'', PDict
        [(''absolute'', spread order_book),
         (''percent'', sp)]),
      (''depth_analysis'', PDict
        [(''total_bid_depth'', total_bid_depth order_book),
         (''total_ask_depth'', total_ask_depth order_book),
         (''bid_ask_ratio'', bar),
         (''top_bids'', levels (take 5 (bids order_book))),
         (''top_asks'', levels (take 5 (asks order_book)))]),
      (''trade_analysis'', PDict
        [(''total_trades'', PInt (int (length recent_trades))),
         (''buy_trades'', PInt (trades_buy recent_trades)),
         (''sell_trades'', PInt (trades_sell recent_trades)),
         (''buy_sell_ratio'', bsr),
         (''avg_trade_size'', avg)]),
      (''klines'', PDict
        [(''1h'', PList [asdict k. k \<leftarrow> last_n 6 klines_1h]),
         (''4h'', PList [asdict k. k \<leftarrow> last_n 6 klines_4h]),
         (''1d'', PList [asdict k. k \<leftarrow> last_n 7 klines_1d])])]"

subsection \<open>JSON encoding of Python values\<close>

text \<open>
  The text that \<^verbatim>\<open>json.dump\<close> writes and \<^verbatim>\<open>json.load\<close> parses is represented by the JSON
  value it denotes: the codec of the \<^verbatim>\<open>json\<close> library between a JSON value and its text is
  taken as lossless. What the library does to Python values is modelled: a list and a tuple
  both become an array, an array is read back as a list, and an object is read back by
  assigning its members to a new dictionary in order.
\<close>

fun to_json :: "pyval \<Rightarrow> json" where
  "to_json PNone = JNull"
| "to_json (PBool b) = JBool b"
| "to_json (PInt i) = JInt i"
| "to_json (PFloat x) = JFloat x"
| "to_json (PStr s) = JString s"
| "to_json (PList vs) = JArray (map to_json vs)"
| "to_json (PTuple vs) = JArray (map to_json vs)"
| "to_json (PDict kvs) = JObject (map (map_prod id to_json) kvs)"

fun dict_set :: "(string \<times> 'v) list \<Rightarrow> string \<Rightarrow> 'v \<Rightarrow> (string \<times> 'v) list" where
  "dict_set [] k v = [(k, v)]"
| "dict_set ((k', v') # kvs) k v =
     (if k' = k then (k', v) # kvs else (k', v') # dict_set kvs k v)"

definition dict_of_items :: "(string \<times> 'v) list \<Rightarrow> (string \<times> 'v) list" where
  "dict_of_items items = foldl (\<lambda>d (k, v). dict_set d k v) [] items"

fun from_json :: "json \<Rightarrow> pyval" where
  "from_json JNull = PNone"
| "from_json (JBool b) = PBool b"
| "from_json (JInt i) = PInt i"
| "from_json (JFloat x) = PFloat x"
| "from_json (JString s) = PStr s"
| "from_json (JArray js) = PList (map from_json js)"
| "from_json (JObject kjs) = PDict (dict_of_items (map (map_prod id from_json) kjs))"

subsection \<open>The world: clock, file system, output, call log\<close>

record datetime =
  year :: nat
  month :: nat
  day :: nat
  hour :: nat
  minute :: nat
  second :: nat
  microsecond :: nat

definition digit :: "nat \<Rightarrow> char" where
  "digit n = ''0123456789'' ! (n mod 10)"

definition pad2 :: "nat \<Rightarrow> string" where
  "pad2 n = [digit (n div 10), digit n]"

definition pad4 :: "nat \<Rightarrow> string" where
  "pad4 n = [digit (n div 1000), digit (n div 100), digit (n div 10), digit n]"

definition pad6 :: "nat \<Rightarrow> string" where
  "pad6 n = [digit (n div 100000), digit (n div 10000), digit (n div 1000),
             digit (n div 100), digit (n div 10), digit n]"

text \<open>
  The fields of a \<^verbatim>\<open>datetime\<close> are in range (year below 10000, month below 100, and so on),
  so each is printed with its fixed number of digits.
  \<open>strftime_compact\<close> is \<^verbatim>\<open>strftime("%Y%m%d_%H%M%S")\<close>, \<open>strftime_display\<close> is
  \<^verbatim>\<open>strftime("%Y-%m-%d %H:%M:%S")\<close>.
\<close>

definition strftime_compact :: "datetime \<Rightarrow> string" where
  "strftime_compact t =
     pad4 (year t) @ pad2 (month t) @ pad2 (day t) @ ''_'' @
     pad2 (hour t) @ pad2 (minute t) @ pad2 (second t)"

definition strftime_display :: "datetime \<Rightarrow> string" where
  "strftime_display t =
     pad4 (year t) @ ''-'' @ pad2 (month t) @ ''-'' @ pad2 (day t) @ '' '' @
     pad2 (hour t) @ '':'' @ pad2 (minute t) @ '':'' @ pad2 (second t)"

definition isoformat :: "datetime \<Rightarrow> string" where
  "isoformat t =
     pad4 (year t) @ ''-'' @ pad2 (month t) @ ''-'' @ pad2 (day t) @ ''T'' @
     pad2 (hour t) @ '':'' @ pad2 (minute t) @ '':'' @ pad2 (second t) @
     (if microsecond t = 0 then [] else ''.'' @ pad6 (microsecond t))"

datatype file_data = JsonText json | OtherText exn

datatype call = Get string | Save | Close

datatype out = Text string | Fmt string "pyval list" | Err exn

text \<open>
  \<open>clock w n\<close> is what the \<open>n\<close>-th call of \<^verbatim>\<open>datetime.now()\<close> returns. A path is the list of
  its parts, as \<^verbatim>\<open>pathlib\<close> has it; \<open>dirs\<close> are the directories and \<open>files\<close> the regular
  files with their content. The content of a file is what reading and decoding it gives:
  \<open>JsonText j\<close> is content that the JSON decoder accepts, with the value \<open>j\<close> it denotes;
  \<open>OtherText e\<close> is content that it does not accept, with the exception \<open>e\<close> that reading and
  decoding it raise (\<^verbatim>\<open>JSONDecodeError\<close> for text that is not JSON, as the empty text of a
  file just created; \<^verbatim>\<open>UnicodeDecodeError\<close> for bytes that are not UTF-8; \<^verbatim>\<open>ValueError\<close>
  for an integer literal beyond the digit limit; \<^verbatim>\<open>RecursionError\<close> for a nesting too
  deep). The non-finite numbers that the decoder also accepts are outside the model of
  floats.
  On the standard output, \<open>Text s\<close> is a printed line, \<open>Fmt f vs\<close> a line printed from the
  f-string \<open>f\<close> with the values \<open>vs\<close> in its replacement fields, and \<open>Err e\<close> the line
  \<^verbatim>\<open>"\n  Error: {e}"\<close>.
\<close>

record world =
  clock :: "nat \<Rightarrow> datetime"
  clock_reads :: nat
  dirs :: "path set"
  files :: "path \<Rightarrow> file_data option"
  calls :: "call list"
  stdout :: "out list"

type_synonym ('a, 's) io = "'s \<Rightarrow> (exn + 'a) \<times> 's"

definition io_return :: "'a \<Rightarrow> ('a, 's) io" where
  "io_return x = (\<lambda>s. (Inr x, s))"

definition io_raise :: "exn \<Rightarrow> ('a, 's) io" where
  "io_raise e = (\<lambda>s. (Inl e, s))"

definition io_bind :: "('a, 's) io \<Rightarrow> ('a \<Rightarrow> ('b, 's) io) \<Rightarrow> ('b, 's) io" where
  "io_bind f g = (\<lambda>s. case f s of (Inl e, s') \<Rightarrow> (Inl e, s') | (Inr x, s') \<Rightarrow> g x s')"

text \<open>\<^verbatim>\<open>try: f  finally: h\<close>, for a handler \<open>h\<close> that does not raise.\<close>

definition try_finally :: "('a, 's) io \<Rightarrow> ('s \<Rightarrow> 's) \<Rightarrow> ('a, 's) io" where
  "try_finally f h = (\<lambda>s. case f s of (r, s') \<Rightarrow> (r, h s'))"

definition io_of :: "exn + 'a \<Rightarrow> ('a, 's) io" where
  "io_of r = (\<lambda>s. (r, s))"

definition invoked :: "call \<Rightarrow> (unit, world) io" where
  "invoked c = (\<lambda>w. (Inr (), w\<lparr>calls := calls w @ [c]\<rparr>))"

definition now :: "(datetime, world) io" where
  "now = (\<lambda>w. (Inr (clock w (clock_reads w)), w\<lparr>clock_reads := Suc (clock_reads w)\<rparr>))"

definition print :: "out \<Rightarrow> (unit, world) io" where
  "print l = (\<lambda>w. (Inr (), w\<lparr>stdout := stdout w @ [l]\<rparr>))"

subsection \<open>Paths and files\<close>

fun split_on :: "char \<Rightarrow> string \<Rightarrow> string list" where
  "split_on c [] = [[]]"
| "split_on c (x # xs) =
     (if x = c then [] # split_on c xs
      else (case split_on c xs of [] \<Rightarrow> [[x]] | y # ys \<Rightarrow> (x # y) # ys))"

text \<open>
  \<open>path_join p s\<close> is \<^verbatim>\<open>p / s\<close>: the parts of \<open>s\<close> are appended, empty parts and \<^verbatim>\<open>.\<close> are
  dropped, and an \<open>s\<close> that starts with a slash replaces \<open>p\<close>. A part \<^verbatim>\<open>..\<close> is kept as it is,
  and the file system below does not resolve it.
\<close>

definition path_parts :: "string \<Rightarrow> string list" where
  "path_parts s = filter (\<lambda>p. p \<noteq> [] \<and> p \<noteq> ''.'') (split_on (CHR ''/'') s)"

definition path_join :: "path \<Rightarrow> string \<Rightarrow> path" where
  "path_join p s =
     (if s \<noteq> [] \<and> hd s = CHR ''/'' then ''/'' # path_parts s else p @ path_parts s)"

definition lower_char :: "char \<Rightarrow> char" where
  "lower_char c =
     (case map_of (zip ''ABCDEFGHIJKLMNOPQRSTUVWXYZ'' ''abcdefghijklmnopqrstuvwxyz'') c of
        None \<Rightarrow> c | Some l \<Rightarrow> l)"

definition upper_char :: "char \<Rightarrow> char" where
  "upper_char c =
     (case map_of (zip ''abcdefghijklmnopqrstuvwxyz'' ''ABCDEFGHIJKLMNOPQRSTUVWXYZ'') c of
        None \<Rightarrow> c | Some u \<Rightarrow> u)"

definition lower :: "string \<Rightarrow> string" where
  "lower s = map lower_char s"

definition upper :: "string \<Rightarrow> string" where
  "upper s = map upper_char s"

text \<open>
  \<^verbatim>\<open>Path.mkdir(parents=True, exist_ok=True)\<close>: an existing directory is accepted, the
  missing ancestors are created; a regular file at the path or at one of its ancestors
  makes \<^verbatim>\<open>os.mkdir\<close> fail.
\<close>

definition mkdir_parents :: "path \<Rightarrow> (unit, world) io" where
  "mkdir_parents p = (\<lambda>w.
     if files w p \<noteq> None then (Inl (FileExistsError p), w)
     else if list_ex (\<lambda>q. files w q \<noteq> None) (prefixes p) then (Inl (NotADirectoryError p), w)
     else (Inr (), w\<lparr>dirs := dirs w \<union> set (prefixes p)\<rparr>))"

text \<open>\<^verbatim>\<open>open(p, "w")\<close> creates the file or truncates it; its directory must exist.\<close>

definition open_w :: "path \<Rightarrow> (unit, world) io" where
  "open_w p = (\<lambda>w.
     if p \<in> dirs w then (Inl (IsADirectoryError p), w)
     else if list_ex (\<lambda>q. files w q \<noteq> None) (butlast (prefixes p))
       then (Inl (NotADirectoryError p), w)
     else if butlast p \<notin> dirs w then (Inl (FileNotFoundError p), w)
     else (Inr (), w\<lparr>files := (files w)(p \<mapsto> OtherText JSONDecodeError)\<rparr>))"

text \<open>\<^verbatim>\<open>open(p)\<close> for reading returns the content of the file.\<close>

definition open_r :: "path \<Rightarrow> (file_data, world) io" where
  "open_r p = (\<lambda>w.
     if p \<in> dirs w then (Inl (IsADirectoryError p), w)
     else if list_ex (\<lambda>q. files w q \<noteq> None) (butlast (prefixes p))
       then (Inl (NotADirectoryError p), w)
     else (case files w p of None \<Rightarrow> (Inl (FileNotFoundError p), w)
           | Some content \<Rightarrow> (Inr content, w)))"

definition json_dump :: "pyval \<Rightarrow> path \<Rightarrow> (unit, world) io" where
  "json_dump data p = (\<lambda>w. (Inr (), w\<lparr>files := (files w)(p \<mapsto> JsonText (to_json data))\<rparr>))"

definition json_load :: "file_data \<Rightarrow> (pyval, world) io" where
  "json_load content =
     (case content of OtherText e \<Rightarrow> io_raise e
      | JsonText j \<Rightarrow> io_return (from_json j))"

subsection \<open>\<^verbatim>\<open>save_snapshot\<close> and \<^verbatim>\<open>load_snapshot\<close>\<close>

definition SNAPSHOT_DIR :: path where
  "SNAPSHOT_DIR = [''snapshots'']"

definition save_snapshot :: "pyval \<Rightarrow> string \<Rightarrow> path \<Rightarrow> (path, world) io" where
  "save_snapshot data symbol output_dir =
     io_bind (invoked Save) (\<lambda>_.
     io_bind (mkdir_parents output_dir) (\<lambda>_.
     io_bind now (\<lambda>t.
       let timestamp = strftime_compact t;
           filename = path_join output_dir (lower symbol @ ''_'' @ timestamp @ ''.json'')
       in io_bind (open_w filename) (\<lambda>_.
          io_bind (json_dump data filename) (\<lambda>_.
          io_return filename)))))"

definition load_snapshot :: "path \<Rightarrow> (pyval, world) io" where
  "load_snapshot filepath = io_bind (open_r filepath) json_load"

subsection \<open>The client and the market behind it\<close>

record market =
  ping_resp :: "exn + unit"
  ticker_price_resp :: "string \<Rightarrow> exn + TickerPrice"
  ticker_24h_resp :: "string \<Rightarrow> exn + Ticker24h"
  order_book_resp :: "string \<Rightarrow> int \<Rightarrow> exn + OrderBookDepth"
  recent_trades_resp :: "string \<Rightarrow> int \<Rightarrow> exn + RecentTrade list"
  avg_price_resp :: "string \<Rightarrow> exn + rat"
  book_ticker_resp :: "string \<Rightarrow> exn + BookTicker"
  klines_resp :: "string \<Rightarrow> string \<Rightarrow> int \<Rightarrow> exn + Kline list"

text \<open>
  \<open>handle_open\<close> says that \<^verbatim>\<open>self._client\<close> holds an \<^verbatim>\<open>httpx.Client\<close>. It is created by
  the first request (\<^verbatim>\<open>_get_client\<close>) and dropped by \<^verbatim>\<open>close\<close>.
\<close>

record BinanceClient =
  base_url :: string
  handle_open :: bool

definition BINANCE_BASE_URL :: string where
  "BINANCE_BASE_URL = ''https://api.binance.com''"

definition new_client :: "string option \<Rightarrow> BinanceClient" where
  "new_client url =
     \<lparr>base_url = (case url of None \<Rightarrow> BINANCE_BASE_URL
                   | Some u \<Rightarrow> if u = [] then BINANCE_BASE_URL else u),
      handle_open = False\<rparr>"

definition close :: "BinanceClient \<times> world \<Rightarrow> BinanceClient \<times> world" where
  "close = (\<lambda>(c, w). (c\<lparr>handle_open := False\<rparr>, w\<lparr>calls := calls w @ [Close]\<rparr>))"

text \<open>
  \<^verbatim>\<open>_get\<close>: the request goes through the handle, created on demand; \<open>resp\<close> is what the
  accessor makes of the answer.
\<close>

definition api_get :: "string \<Rightarrow> exn + 'a \<Rightarrow> ('a, BinanceClient \<times> world) io" where
  "api_get endpoint resp =
     (\<lambda>(c, w). (resp, (c\<lparr>handle_open := True\<rparr>, w\<lparr>calls := calls w @ [Get endpoint]\<rparr>)))"

definition ping :: "market \<Rightarrow> (bool, BinanceClient \<times> world) io" where
  "ping m = (\<lambda>s. case api_get ''/api/v3/ping'' (ping_resp m) s of
               (Inl e, s') \<Rightarrow> (Inr False, s')
             | (Inr u, s') \<Rightarrow> (Inr True, s'))"

definition get_ticker_price :: "market \<Rightarrow> string \<Rightarrow> (TickerPrice, BinanceClient \<times> world) io" where
  "get_ticker_price m symbol = api_get ''/api/v3/ticker/price'' (ticker_price_resp m symbol)"

definition get_ticker_24h :: "market \<Rightarrow> string \<Rightarrow> (Ticker24h, BinanceClient \<times> world) io" where
  "get_ticker_24h m symbol = api_get ''/api/v3/ticker/24hr'' (ticker_24h_resp m symbol)"

definition get_order_book ::
  "market \<Rightarrow> string \<Rightarrow> int \<Rightarrow> (OrderBookDepth, BinanceClient \<times> world) io" where
  "get_order_book m symbol limit = api_get ''/api/v3/depth'' (order_book_resp m symbol limit)"

definition get_recent_trades ::
  "market \<Rightarrow> string \<Rightarrow> int \<Rightarrow> (RecentTrade list, BinanceClient \<times> world) io" where
  "get_recent_trades m symbol limit =
     api_get ''/api/v3/trades'' (recent_trades_resp m symbol limit)"

definition get_klines ::
  "market \<Rightarrow> string \<Rightarrow> string \<Rightarrow> int \<Rightarrow> (Kline list, BinanceClient \<times> world) io" where
  "get_klines m symbol interval limit =
     api_get ''/api/v3/klines'' (klines_resp m symbol interval limit)"

definition get_avg_price :: "market \<Rightarrow> string \<Rightarrow> (rat, BinanceClient \<times> world) io" where
  "get_avg_price m symbol = api_get ''/api/v3/avgPrice'' (avg_price_resp m symbol)"

definition get_book_ticker :: "market \<Rightarrow> string \<Rightarrow> (pyval, BinanceClient \<times> world) io" where
  "get_book_ticker m symbol =
     api_get ''/api/v3/ticker/bookTicker'' (map_sum id book_ticker_dict (book_ticker_resp m symbol))"

text \<open>An action on the world alone, run while a client is in scope.\<close>

definition on_world :: "('a, world) io \<Rightarrow> ('a, BinanceClient \<times> world) io" where
  "on_world f = (\<lambda>(c, w). case f w of (r, w') \<Rightarrow> (r, (c, w')))"

subsection \<open>\<^verbatim>\<open>create_market_snapshot\<close>\<close>

text \<open>
  The body of the \<^verbatim>\<open>try\<close> block, lines 51 to 122, in the order of evaluation: the nine
  fetches, the ratios of lines 69 to 76, then the dictionary literal, which reads the clock
  first and computes the average trade size on its way, and the save.
\<close>

definition snapshot_try :: "market \<Rightarrow> string \<Rightarrow> path \<Rightarrow> (pyval, BinanceClient \<times> world) io" where
  "snapshot_try m symbol output_dir =
     io_bind (get_ticker_price m symbol) (\<lambda>ticker_price.
     io_bind (get_ticker_24h m symbol) (\<lambda>ticker_24h.
     io_bind (get_order_book m symbol 20) (\<lambda>order_book.
     io_bind (get_recent_trades m symbol 100) (\<lambda>recent_trades.
     io_bind (get_avg_price m symbol) (\<lambda>avg_price.
     io_bind (get_book_ticker m symbol) (\<lambda>book_ticker.
     io_bind (get_klines m symbol ''1h'' 24) (\<lambda>klines_1h.
     io_bind (get_klines m symbol ''4h'' 42) (\<lambda>klines_4h.
     io_bind (get_klines m symbol ''1d'' 30) (\<lambda>klines_1d.
     io_bind (io_of (buy_sell_ratio recent_trades)) (\<lambda>bsr.
     io_bind (io_of (bid_ask_ratio order_book)) (\<lambda>bar.
     io_bind (io_of (spread_percent order_book)) (\<lambda>sp.
     io_bind (on_world now) (\<lambda>t.
     io_bind (io_of (avg_trade_size recent_trades)) (\<lambda>avg.
       let snapshot = snapshot_dict (isoformat t) symbol ticker_price ticker_24h order_book
                        recent_trades avg_price book_ticker klines_1h klines_4h klines_1d
                        bsr bar sp avg
       in io_bind (on_world (save_snapshot snapshot symbol output_dir)) (\<lambda>_.
          io_return snapshot)))))))))))))))"

text \<open>
  The result is the value returned or the exception raised, with the state in which the
  call leaves the client it used (the caller's, or the one it created) and the world.
\<close>

definition create_market_snapshot ::
  "market \<Rightarrow> string \<Rightarrow> BinanceClient option \<Rightarrow> path option \<Rightarrow> world \<Rightarrow>
   (exn + pyval) \<times> BinanceClient \<times> world" where
  "create_market_snapshot m symbol client output_dir w =
     (let should_close = (client = None);
          c = (case client of None \<Rightarrow> new_client None | Some c \<Rightarrow> c);
          dir = (case output_dir of None \<Rightarrow> SNAPSHOT_DIR | Some d \<Rightarrow> d)
      in try_finally (snapshot_try m symbol dir) (if should_close then close else id) (c, w))"

subsection \<open>The command line: \<^verbatim>\<open>main.py\<close>\<close>

text \<open>
  The logging of \<^verbatim>\<open>main.py\<close> (the log file and the calls of \<^verbatim>\<open>logger\<close>) is left out: it
  writes to a file of its own and decides nothing below. A subscript \<^verbatim>\<open>d[k]\<close> raises
  \<^verbatim>\<open>KeyError\<close> on a missing key; the expressions of an f-string are evaluated from left to
  right before the line is printed, and formatting a number does not raise.
\<close>

definition getitem :: "pyval \<Rightarrow> string \<Rightarrow> exn + pyval" where
  "getitem d k =
     (case d of
        PDict kvs \<Rightarrow> (case map_of kvs k of None \<Rightarrow> Inl (KeyError k) | Some v \<Rightarrow> Inr v)
      | _ \<Rightarrow> Inl TypeError)"

definition sum_bind :: "exn + 'a \<Rightarrow> ('a \<Rightarrow> exn + 'b) \<Rightarrow> exn + 'b" where
  "sum_bind r f = (case r of Inl e \<Rightarrow> Inl e | Inr x \<Rightarrow> f x)"

text \<open>\<^verbatim>\<open>a / b * 100\<close> and \<^verbatim>\<open>a - b\<close> on numbers.\<close>

definition div_times_100 :: "pyval \<Rightarrow> pyval \<Rightarrow> exn + pyval" where
  "div_times_100 a b =
     (if \<not> is_num a \<or> \<not> is_num b then Inl TypeError
      else if num b = 0 then Inl ZeroDivisionError
      else Inr (PFloat (num a / num b * 100)))"

definition py_sub :: "pyval \<Rightarrow> pyval \<Rightarrow> exn + pyval" where
  "py_sub a b =
     (if \<not> is_num a \<or> \<not> is_num b then Inl TypeError
      else (case (a, b) of (PInt i, PInt j) \<Rightarrow> Inr (PInt (i - j))
            | _ \<Rightarrow> Inr (PFloat (num a - num b))))"

fun collect :: "(exn + 'a) list \<Rightarrow> exn + 'a list" where
  "collect [] = Inr []"
| "collect (Inl e # rs) = Inl e"
| "collect (Inr x # rs) = map_sum id ((#) x) (collect rs)"

definition print_fmt :: "string \<Rightarrow> (exn + pyval) list \<Rightarrow> (unit, BinanceClient \<times> world) io" where
  "print_fmt f es =
     (case collect es of Inl e \<Rightarrow> io_raise e | Inr vs \<Rightarrow> on_world (print (Fmt f vs)))"

definition print_text :: "string \<Rightarrow> (unit, BinanceClient \<times> world) io" where
  "print_text s = on_world (print (Text s))"

fun seq :: "(unit, 's) io list \<Rightarrow> (unit, 's) io" where
  "seq [] = io_return ()"
| "seq (f # fs) = io_bind f (\<lambda>_. seq fs)"

definition print_header :: "string \<Rightarrow> string \<Rightarrow> (unit, world) io" where
  "print_header symbol mode =
     io_bind (print (Text [])) (\<lambda>_.
     io_bind (print (Text (replicate 80 (CHR ''='')))) (\<lambda>_.
     io_bind (print (Text (''  MARKET SNAPSHOT - '' @ symbol))) (\<lambda>_.
     io_bind (print (Text (replicate 80 (CHR ''='')))) (\<lambda>_.
     io_bind (print (Text [])) (\<lambda>_.
     io_bind now (\<lambda>t.
     io_bind (print (Text (''  Started: '' @ strftime_display t))) (\<lambda>_.
     io_bind (print (Text (''  Mode: '' @ mode))) (\<lambda>_.
     io_bind (print (Text [])) (\<lambda>_.
     print (Text (replicate 80 (CHR ''-''))))))))))))"

definition print_footer :: "(unit, world) io" where
  "print_footer =
     io_bind (print (Text (replicate 80 (CHR ''-'')))) (\<lambda>_.
     io_bind now (\<lambda>t.
     io_bind (print (Text (''  Completed: '' @ strftime_display t))) (\<lambda>_.
     io_bind (print (Text (replicate 80 (CHR ''='')))) (\<lambda>_.
     print (Text [])))))"

text \<open>\<^verbatim>\<open>with BinanceClient() as client: body\<close>: the client is closed on every way out.\<close>

definition with_client :: "('a, BinanceClient \<times> world) io \<Rightarrow> ('a, world) io" where
  "with_client body = (\<lambda>w. case try_finally body close (new_client None, w) of
                              (r, (c, w')) \<Rightarrow> (r, w'))"

text \<open>
  The body of the \<^verbatim>\<open>with\<close> block of \<^verbatim>\<open>cmd_info\<close>; it returns \<open>False\<close> when it leaves the
  function by the \<^verbatim>\<open>return\<close> of line 65, and \<open>True\<close> when it runs to its end.
\<close>

definition info_body :: "market \<Rightarrow> string \<Rightarrow> (bool, BinanceClient \<times> world) io" where
  "info_body m symbol =
     io_bind (ping m) (\<lambda>ok.
       if \<not> ok
       then io_bind (print_text ''  Error: Cannot connect to Binance API'') (\<lambda>_. io_return False)
       else
         io_bind (get_ticker_24h m symbol) (\<lambda>ticker.
         io_bind (get_book_ticker m symbol) (\<lambda>book.
         io_bind (seq
           [print_text (''  Symbol: '' @ symbol),
            print_text [],
            print_fmt ''  Price: ${:,.2f}'' [Inr (PFloat (last_price ticker))],
            print_fmt ''  24h Change: {:+,.2f} ({:+.2f}%)''
              [Inr (PFloat (price_change ticker)), Inr (PFloat (price_change_percent ticker))],
            print_fmt ''  24h High: ${:,.2f}'' [Inr (PFloat (high_price ticker))],
            print_fmt ''  24h Low: ${:,.2f}'' [Inr (PFloat (low_price ticker))],
            print_fmt ''  24h Volume: {:,.2f}'' [Inr (PFloat (t24_volume ticker))],
            print_fmt ''  24h Trades: {:,}'' [Inr (PInt (t24_trade_count ticker))],
            print_text [],
            print_fmt ''  Best Bid: ${:,.2f} ({:,.4f})''
              [getitem book ''bid_price'', getitem book ''bid_qty''],
            print_fmt ''  Best Ask: ${:,.2f} ({:,.4f})''
              [getitem book ''ask_price'', getitem book ''ask_qty'']]) (\<lambda>_.
         io_bind (io_of (sum_bind (getitem book ''ask_price'') (\<lambda>a.
                         sum_bind (getitem book ''bid_price'') (\<lambda>b. py_sub a b)))) (\<lambda>spread.
         io_bind (print_fmt ''  Spread: ${:,.4f} ({:.4f}%)''
                    [Inr spread,
                     sum_bind (getitem book ''bid_price'') (\<lambda>b. div_times_100 spread b)]) (\<lambda>_.
         io_return True))))))"

definition cmd_info :: "market \<Rightarrow> string \<Rightarrow> (unit, world) io" where
  "cmd_info m symbol =
     io_bind (print_header symbol ''info'') (\<lambda>_.
     io_bind (with_client (info_body m symbol)) (\<lambda>completed.
     if completed then print_footer else io_return ()))"

text \<open>The display of a snapshot, lines 102 to 135 of \<^verbatim>\<open>cmd_snapshot\<close>.\<close>

definition show_snapshot :: "string \<Rightarrow> pyval \<Rightarrow> (unit, BinanceClient \<times> world) io" where
  "show_snapshot symbol snapshot =
     io_bind (io_of (getitem snapshot ''summary'')) (\<lambda>s.
     io_bind (seq
       [print_text (''  Symbol: '' @ symbol),
        print_fmt ''  Price: ${:,.2f}'' [getitem s ''price''],
        print_fmt ''  24h Change: {:+,.2f} ({:+.2f}%)''
          [getitem s ''price_change_24h'', getitem s ''price_change_percent_24h''],
        print_fmt ''  24h Range: ${:,.2f} - ${:,.2f}'' [getitem s ''low_24h'', getitem s ''high_24h''],
        print_fmt ''  24h Volume: {:,.2f} {}''
          [getitem s ''volume_24h'', Inr (PStr (take (length symbol - 4) symbol))],
        print_fmt ''  24h Quote Volume: ${:,.2f}'' [getitem s ''quote_volume_24h''],
        print_fmt ''  24h Trades: {:,}'' [getitem s ''trade_count_24h''],
        print_text []]) (\<lambda>_.
     io_bind (io_of (getitem snapshot ''depth_analysis'')) (\<lambda>d.
     io_bind (seq
       [print_text ''  Order Book Depth (top 20 levels):'',
        print_fmt ''    Total Bid Depth: {:,.4f}'' [getitem d ''total_bid_depth''],
        print_fmt ''    Total Ask Depth: {:,.4f}'' [getitem d ''total_ask_depth''],
        print_fmt ''    Bid/Ask Ratio: {:.2f}'' [getitem d ''bid_ask_ratio''],
        print_text []]) (\<lambda>_.
     io_bind (io_of (getitem snapshot ''trade_analysis'')) (\<lambda>t.
     io_bind (seq
       [print_text ''  Recent Trade Analysis (last 100):'',
        print_fmt ''    Buy Trades: {} ({:.1f}%)''
          [getitem t ''buy_trades'',
           sum_bind (getitem t ''buy_trades'') (\<lambda>a.
           sum_bind (getitem t ''total_trades'') (\<lambda>b. div_times_100 a b))],
        print_fmt ''    Sell Trades: {} ({:.1f}%)''
          [getitem t ''sell_trades'',
           sum_bind (getitem t ''sell_trades'') (\<lambda>a.
           sum_bind (getitem t ''total_trades'') (\<lambda>b. div_times_100 a b))],
        print_fmt ''    Buy/Sell Ratio: {:.2f}'' [getitem t ''buy_sell_ratio''],
        print_fmt ''    Avg Trade Size: {:.4f}'' [getitem t ''avg_trade_size''],
        print_text []]) (\<lambda>_.
     io_bind (io_of (getitem snapshot ''spread'')) (\<lambda>sp.
     seq
       [print_fmt ''  Spread: ${:.4f} ({:.4f}%)'' [getitem sp ''absolute'', getitem sp ''percent''],
        print_text [],
        print_text (''  Snapshot saved to: snapshots/'' @ lower symbol @ ''_*.json'')])))))))"

text \<open>
  The body of the \<^verbatim>\<open>with\<close> block of \<^verbatim>\<open>cmd_snapshot\<close>; it returns \<open>False\<close> when it leaves
  the function by the \<^verbatim>\<open>return\<close> of line 95. The client of the block is handed to
  \<^verbatim>\<open>create_market_snapshot\<close>, with the default output directory.
\<close>

definition snapshot_body :: "market \<Rightarrow> string \<Rightarrow> (bool, BinanceClient \<times> world) io" where
  "snapshot_body m symbol =
     io_bind (ping m) (\<lambda>ok.
       if \<not> ok
       then io_bind (print_text ''  Error: Cannot connect to Binance API'') (\<lambda>_. io_return False)
       else
         io_bind (print_text (''  Collecting data for '' @ symbol @ ''...'')) (\<lambda>_.
         io_bind (print_text []) (\<lambda>_.
         io_bind (\<lambda>(c, w). create_market_snapshot m symbol (Some c) None w) (\<lambda>snapshot.
         io_bind (show_snapshot symbol snapshot) (\<lambda>_.
         io_return True)))))"

definition cmd_snapshot :: "market \<Rightarrow> string \<Rightarrow> (unit, world) io" where
  "cmd_snapshot m symbol =
     io_bind (print_header symbol ''snapshot'') (\<lambda>_.
     io_bind (with_client (snapshot_body m symbol)) (\<lambda>completed.
     if completed then print_footer else io_return ()))"

definition help_text :: string where
  "help_text = concat (map (\<lambda>l. l @ [CHR 0x0A])
     [[],
      ''Market Snapshot - Binance Public Market Data Analytics'',
      [],
      ''Usage:'',
      ''  market-snapshot <symbol>        Create comprehensive snapshot'',
      ''  market-snapshot <symbol> info   Show basic info only'',
      [],
      ''Examples:'',
      ''  market-snapshot ETHUSDT'',
      ''  market-snapshot BTCUSDT info'',
      ''  market-snapshot BNBUSDT'',
      [],
      ''Supported: Any Binance trading pair (e.g., ETHUSDT, BTCUSDT, SOLUSDT)''])"

definition print_help :: "(unit, world) io" where
  "print_help = print (Text help_text)"

text \<open>
  \<open>main m argv w\<close> is the exit status of the process with the world it leaves: 0 when
  \<^verbatim>\<open>main\<close> returns, 1 when it ends in \<^verbatim>\<open>sys.exit(1)\<close>.
\<close>

definition main :: "market \<Rightarrow> string list \<Rightarrow> world \<Rightarrow> int \<times> world" where
  "main m argv w =
     (if length argv < 2 then (0, snd (print_help w))
      else
        let symbol = upper (argv ! 1) in
        if symbol \<in> set [''HELP'', ''-H'', ''--HELP''] then (0, snd (print_help w))
        else
          let mode = (if length argv > 2 then lower (argv ! 2) else ''snapshot'') in
          case (if mode = ''info'' then cmd_info m symbol else cmd_snapshot m symbol) w of
            (Inr u, w') \<Rightarrow> (0, w')
          | (Inl e, w') \<Rightarrow> (1, snd (print (Text []) (snd (print (Err e) w')))))"

subsection \<open>Vocabulary of the statements\<close>

text \<open>
  The outcomes of the nine fetches of \<^verbatim>\<open>create_market_snapshot\<close>, in the order of the calls,
  and the first exception among them.
\<close>

definition err :: "exn + 'a \<Rightarrow> exn option" where
  "err r = (case r of Inl e \<Rightarrow> Some e | Inr x \<Rightarrow> None)"

definition fetch_errors :: "market \<Rightarrow> string \<Rightarrow> exn option list" where
  "fetch_errors m symbol =
     [err (ticker_price_resp m symbol),
      err (ticker_24h_resp m symbol),
      err (order_book_resp m symbol 20),
      err (recent_trades_resp m symbol 100),
      err (avg_price_resp m symbol),
      err (book_ticker_resp m symbol),
      err (klines_resp m symbol ''1h'' 24),
      err (klines_resp m symbol ''4h'' 42),
      err (klines_resp m symbol ''1d'' 30)]"

fun first_error :: "exn option list \<Rightarrow> exn option" where
  "first_error [] = None"
| "first_error (None # es) = first_error es"
| "first_error (Some e # es) = Some e"

text \<open>
  The endpoints of the nine fetches, and those among them that a run requests: all up to
  the first that fails.
\<close>

definition fetch_endpoints :: "string list" where
  "fetch_endpoints =
     [''/api/v3/ticker/price'', ''/api/v3/ticker/24hr'', ''/api/v3/depth'', ''/api/v3/trades'',
      ''/api/v3/avgPrice'', ''/api/v3/ticker/bookTicker'', ''/api/v3/klines'', ''/api/v3/klines'',
      ''/api/v3/klines'']"

fun attempted :: "exn option list \<Rightarrow> string list \<Rightarrow> string list" where
  "attempted (None # es) (ep # eps) = ep # attempted es eps"
| "attempted (Some e # es) (ep # eps) = [ep]"
| "attempted es eps = []"

text \<open>The calls logged between a world and a later one.\<close>

definition calls_between :: "world \<Rightarrow> world \<Rightarrow> call list" where
  "calls_between w w' = drop (length (calls w)) (calls w')"

text \<open>The lines that \<^verbatim>\<open>print_header\<close> prints, and the line of a failed connectivity check.\<close>

definition header_lines :: "string \<Rightarrow> string \<Rightarrow> datetime \<Rightarrow> out list" where
  "header_lines symbol mode t =
     [Text [], Text (replicate 80 (CHR ''='')), Text (''  MARKET SNAPSHOT - '' @ symbol),
      Text (replicate 80 (CHR ''='')), Text [], Text (''  Started: '' @ strftime_display t),
      Text (''  Mode: '' @ mode), Text [], Text (replicate 80 (CHR ''-''))]"

definition cannot_connect :: out where
  "cannot_connect = Text ''  Error: Cannot connect to Binance API''"

text \<open>The file name that \<^verbatim>\<open>save_snapshot\<close> builds from the symbol and the time it reads.\<close>

definition snapshot_file :: "string \<Rightarrow> datetime \<Rightarrow> string" where
  "snapshot_file symbol t = lower symbol @ ''_'' @ strftime_compact t @ ''.json''"

text \<open>What \<^verbatim>\<open>json.load\<close> returns for what \<^verbatim>\<open>json.dump\<close> wrote: every tuple has become a list.\<close>

fun tuples_to_lists :: "pyval \<Rightarrow> pyval" where
  "tuples_to_lists (PList vs) = PList (map tuples_to_lists vs)"
| "tuples_to_lists (PTuple vs) = PList (map tuples_to_lists vs)"
| "tuples_to_lists (PDict kvs) = PDict (map (map_prod id tuples_to_lists) kvs)"
| "tuples_to_lists v = v"

fun tuple_free :: "pyval \<Rightarrow> bool" where
  "tuple_free (PList vs) = list_all tuple_free vs"
| "tuple_free (PTuple vs) = False"
| "tuple_free (PDict kvs) = list_all (\<lambda>kv. tuple_free (snd kv)) kvs"
| "tuple_free v = True"

text \<open>
  The persisted document schema as the specification words it (field names of each
  level; the order of the keys is free).
\<close>

definition has_keys :: "pyval \<Rightarrow> string list \<Rightarrow> bool" where
  "has_keys d ks =
     (case d of PDict kvs \<Rightarrow> distinct (map fst kvs) \<and> set (map fst kvs) = set ks | _ \<Rightarrow> False)"

definition sub_keys :: "pyval \<Rightarrow> string \<Rightarrow> string list \<Rightarrow> bool" where
  "sub_keys d k ks = (case dict_get d k of None \<Rightarrow> False | Some v \<Rightarrow> has_keys v ks)"

definition spec_schema :: "pyval \<Rightarrow> bool" where
  "spec_schema d =
     (has_keys d [''timestamp'', ''symbol'', ''summary'', ''book_ticker'', ''spread'',
                  ''depth_analysis'', ''trade_analysis'', ''klines''] \<and>
      sub_keys d ''summary'' [''price'', ''avg_price_5m'', ''price_change_24h'',
        ''price_change_percent_24h'', ''high_24h'', ''low_24h'', ''volume_24h'',
        ''quote_volume_24h'', ''trade_count_24h''] \<and>
      sub_keys d ''book_ticker'' [''symbol'', ''bid_price'', ''bid_qty'', ''ask_price'', ''ask_qty''] \<and>
      sub_keys d ''spread'' [''absolute'', ''percent''] \<and>
      sub_keys d ''depth_analysis'' [''total_bid_depth'', ''total_ask_depth'', ''bid_ask_ratio'',
        ''top_bids'', ''top_asks''] \<and>
      sub_keys d ''trade_analysis'' [''total_trades'', ''buy_trades'', ''sell_trades'',
        ''buy_sell_ratio'', ''avg_trade_size''] \<and>
      sub_keys d ''klines'' [''1h'', ''4h'', ''1d''])"

subsection \<open>Example inputs\<close>

text \<open>
  A market that answers every request: the order book and the ten trades of the
  scenarios of the specification, and candle series of 8, 3 and 9 candles.
\<close>

definition example_price :: TickerPrice where
  "example_price = \<lparr>tp_symbol = ''ETHUSDT'', tp_price = 100\<rparr>"

definition example_24h :: Ticker24h where
  "example_24h =
     \<lparr>t24_symbol = ''ETHUSDT'', price_change = 2, price_change_percent = 2,
      weighted_avg_price = 99, prev_close_price = 98, last_price = 100, t24_bid_price = 100,
      t24_ask_price = 101, open_price = 98, high_price = 103, low_price = 97,
      t24_volume = 1000, t24_quote_volume = 100000, t24_open_time = 1, t24_close_time = 2,
      t24_trade_count = 500\<rparr>"

definition example_book :: OrderBookDepth where
  "example_book =
     \<lparr>ob_symbol = ''ETHUSDT'', bids = [(100, 2), (99, 3)], asks = [(101, 1), (102, 4)],
      last_update_id = 7\<rparr>"

definition trade :: "int \<Rightarrow> bool \<Rightarrow> RecentTrade" where
  "trade i maker =
     \<lparr>trade_id = i, rt_price = 100, qty = 2, quote_qty = 200, rt_time = i,
      is_buyer_maker = maker\<rparr>"

definition example_trades :: "RecentTrade list" where
  "example_trades =
     [trade 1 False, trade 2 False, trade 3 True, trade 4 False, trade 5 False,
      trade 6 False, trade 7 True, trade 8 False, trade 9 True, trade 10 False]"

definition candle :: "int \<Rightarrow> Kline" where
  "candle i =
     \<lparr>k_open_time = i, k_open = 100, k_high = 102, k_low = 99, k_close = 101, k_volume = 10,
      k_close_time = i + 1, k_quote_volume = 1000, k_trade_count = 5, taker_buy_volume = 4,
      taker_buy_quote_volume = 400\<rparr>"

definition example_ticker :: BookTicker where
  "example_ticker =
     \<lparr>bt_symbol = ''ETHUSDT'', bid_price = 100, bid_qty = 2, ask_price = 101, ask_qty = 1\<rparr>"

definition example_klines :: "string \<Rightarrow> Kline list" where
  "example_klines interval =
     (if interval = ''1h'' then map candle [1, 2, 3, 4, 5, 6, 7, 8]
      else if interval = ''4h'' then map candle [1, 2, 3]
      else map candle [1, 2, 3, 4, 5, 6, 7, 8, 9])"

definition example_market :: market where
  "example_market =
     \<lparr>ping_resp = Inr (),
      ticker_price_resp = (\<lambda>symbol. Inr example_price),
      ticker_24h_resp = (\<lambda>symbol. Inr example_24h),
      order_book_resp = (\<lambda>symbol limit. Inr example_book),
      recent_trades_resp = (\<lambda>symbol limit. Inr example_trades),
      avg_price_resp = (\<lambda>symbol. Inr 100),
      book_ticker_resp = (\<lambda>symbol. Inr example_ticker),
      klines_resp = (\<lambda>symbol interval limit. Inr (example_klines interval))\<rparr>"

definition ConnectError :: exn where
  "ConnectError = Raised ''ConnectError'' ''All connection attempts failed''"

text \<open>The same market with the depth request failing, and with no connection at all.\<close>

definition depth_down_market :: market where
  "depth_down_market = example_market\<lparr>order_book_resp := (\<lambda>symbol limit. Inl ConnectError)\<rparr>"

definition unreachable_market :: market where
  "unreachable_market =
     \<lparr>ping_resp = Inl ConnectError,
      ticker_price_resp = (\<lambda>symbol. Inl ConnectError),
      ticker_24h_resp = (\<lambda>symbol. Inl ConnectError),
      order_book_resp = (\<lambda>symbol limit. Inl ConnectError),
      recent_trades_resp = (\<lambda>symbol limit. Inl ConnectError),
      avg_price_resp = (\<lambda>symbol. Inl ConnectError),
      book_ticker_resp = (\<lambda>symbol. Inl ConnectError),
      klines_resp = (\<lambda>symbol interval limit. Inl ConnectError)\<rparr>"

text \<open>An order book whose best bid has price zero.\<close>

definition zero_bid_book :: OrderBookDepth where
  "zero_bid_book = example_book\<lparr>bids := [(0, 1)]\<rparr>"

definition zero_bid_market :: market where
  "zero_bid_market = example_market\<lparr>order_book_resp := (\<lambda>symbol limit. Inr zero_bid_book)\<rparr>"

text \<open>
  A quiet market: no recent trade at all, and an order book whose only ask level has
  quantity zero. Every denominator of the three ratios is zero there.
\<close>

definition zero_ask_book :: OrderBookDepth where
  "zero_ask_book = example_book\<lparr>asks := [(101, 0)]\<rparr>"

definition quiet_market :: market where
  "quiet_market =
     example_market\<lparr>order_book_resp := (\<lambda>symbol limit. Inr zero_ask_book),
                     recent_trades_resp := (\<lambda>symbol limit. Inr [])\<rparr>"

text \<open>
  A clock that advances by one second at each reading, from 2024-01-15 10:30:00, and a
  world with an empty working directory.
\<close>

definition example_clock :: "nat \<Rightarrow> datetime" where
  "example_clock n =
     \<lparr>year = 2024, month = 1, day = 15, hour = 10, minute = 30, second = n mod 60,
      microsecond = 0\<rparr>"

definition empty_world :: world where
  "empty_world =
     \<lparr>clock = example_clock, clock_reads = 0, dirs = {[]}, files = (\<lambda>p. None),
      calls = [], stdout = []\<rparr>"

text \<open>
  A world in which the snapshot directory holds a file of JSON text that is not a snapshot
  document (the empty array).
\<close>

definition stray_path :: path where
  "stray_path = [''snapshots'', ''notes.json'']"

definition stray_world :: world where
  "stray_world =
     empty_world\<lparr>dirs := {[], [''snapshots'']},
                  files := (\<lambda>p. None)(stray_path \<mapsto> JsonText (JArray []))\<rparr>"

text \<open>
  A world in which the snapshot directory holds a file that is not UTF-8 text, so that
  reading it raises \<^verbatim>\<open>UnicodeDecodeError\<close>.
\<close>

definition garbled_path :: path where
  "garbled_path = [''snapshots'', ''garbled.json'']"

definition garbled_world :: world where
  "garbled_world =
     empty_world\<lparr>dirs := {[], [''snapshots'']},
                  files := (\<lambda>p. None)(garbled_path \<mapsto>
                     OtherText (Raised ''UnicodeDecodeError'' ''invalid start byte''))\<rparr>"

text \<open>A market with an empty order book, and the document of its snapshot.\<close>

definition empty_book :: OrderBookDepth where
  "empty_book = example_book\<lparr>bids := [], asks := []\<rparr>"

definition empty_book_snapshot :: pyval where
  "empty_book_snapshot =
     snapshot_dict ''2024-01-15T10:30:00'' ''ETHUSDT'' example_price example_24h empty_book
       example_trades 100 (book_ticker_dict example_ticker) (example_klines ''1h'')
       (example_klines ''4h'') (example_klines ''1d'') (PFloat (7 / 3)) (PInt 0) (PInt 0)
       (PFloat 2)"

definition example_snapshot :: pyval where
  "example_snapshot =
     snapshot_dict ''2024-01-15T10:30:00'' ''ETHUSDT'' example_price example_24h example_book
       example_trades 100 (book_ticker_dict example_ticker) (example_klines ''1h'')
       (example_klines ''4h'') (example_klines ''1d'') (PFloat (7 / 3)) (PFloat 1)
       (PFloat (1 / 100 * 100)) (PFloat 2)"

definition quiet_snapshot :: pyval where
  "quiet_snapshot =
     snapshot_dict ''2024-01-15T10:30:00'' ''ETHUSDT'' example_price example_24h zero_ask_book
       [] 100 (book_ticker_dict example_ticker) (example_klines ''1h'')
       (example_klines ''4h'') (example_klines ''1d'') (PInt 0) (PInt 0) (PFloat 1) (PInt 0)"

definition example_path :: path where
  "example_path = [''snapshots'', ''ethusdt_20240115_103001.json'']"

section \<open>Properties\<close>

subsection \<open>File names and \<^verbatim>\<open>save_snapshot\<close>\<close>

lemma split_on_absent: "c \<notin> set s \<Longrightarrow> split_on c s = [s]"
  by (induction s) auto

lemma path_parts_single:
  "CHR ''/'' \<notin> set s \<Longrightarrow> s \<noteq> [] \<Longrightarrow> s \<noteq> ''.'' \<Longrightarrow> path_parts s = [s]"
  by (simp add: path_parts_def split_on_absent)

lemma lower_char_slash: "lower_char c = CHR ''/'' \<longleftrightarrow> c = CHR ''/''"
  by (auto simp: lower_char_def split: option.splits if_splits)

lemma slash_lower: "CHR ''/'' \<in> set (lower s) \<longleftrightarrow> CHR ''/'' \<in> set s"
proof -
  have "\<And>c. (CHR ''/'' = lower_char c) = (c = CHR ''/'')"
    using lower_char_slash by metis
  then show ?thesis by (auto simp: lower_def image_iff)
qed

lemma digit_in: "digit n \<in> set ''0123456789''"
  unfolding digit_def by (rule nth_mem) simp

lemma digit_not_slash: "digit n \<noteq> CHR ''/''"
  using digit_in [of n] by auto

lemma slash_strftime: "CHR ''/'' \<notin> set (strftime_compact t)"
  by (simp add: strftime_compact_def pad2_def pad4_def digit_not_slash [symmetric])

lemma length_strftime: "length (strftime_compact t) = 15"
  by (simp add: strftime_compact_def pad2_def pad4_def)

lemma slash_snapshot_file:
  "CHR ''/'' \<in> set (snapshot_file symbol t) \<longleftrightarrow> CHR ''/'' \<in> set symbol"
  using slash_strftime [of t] by (auto simp: snapshot_file_def slash_lower)

lemma snapshot_file_not_dot: "snapshot_file symbol t \<noteq> [] \<and> snapshot_file symbol t \<noteq> ''.''"
proof -
  have "length (snapshot_file symbol t) \<ge> 21"
    by (simp add: snapshot_file_def length_strftime)
  then show ?thesis by auto
qed

lemma path_join_snapshot_file:
  assumes "CHR ''/'' \<notin> set symbol"
  shows "path_join dir (snapshot_file symbol t) = dir @ [snapshot_file symbol t]"
proof -
  have ns: "CHR ''/'' \<notin> set (snapshot_file symbol t)"
    using assms by (simp add: slash_snapshot_file)
  have "hd (snapshot_file symbol t) \<noteq> CHR ''/''"
    using ns snapshot_file_not_dot [of symbol t] by (cases "snapshot_file symbol t") auto
  then show ?thesis
    using ns snapshot_file_not_dot [of symbol t] by (simp add: path_join_def path_parts_single)
qed

lemma save_snapshot_unfold:
  "save_snapshot data symbol dir w =
     (let w1 = w\<lparr>calls := calls w @ [Save]\<rparr> in
      case mkdir_parents dir w1 of
        (Inl e, w2) \<Rightarrow> (Inl e, w2)
      | (Inr u, w2) \<Rightarrow>
          (let p = path_join dir (snapshot_file symbol (clock w2 (clock_reads w2)));
               w3 = w2\<lparr>clock_reads := Suc (clock_reads w2)\<rparr>
           in case open_w p w3 of
                (Inl e, w4) \<Rightarrow> (Inl e, w4)
              | (Inr u, w4) \<Rightarrow> (Inr p, w4\<lparr>files := (files w4)(p \<mapsto> JsonText (to_json data))\<rparr>)))"
  by (simp add: save_snapshot_def io_bind_def invoked_def now_def json_dump_def io_return_def
        snapshot_file_def Let_def split: prod.splits sum.splits)

lemma save_snapshot_ok:
  assumes sym: "CHR ''/'' \<notin> set symbol"
      and nofile: "\<not> list_ex (\<lambda>q. files w q \<noteq> None) (prefixes dir)"
      and nodir: "dir @ [snapshot_file symbol (clock w (clock_reads w))] \<notin> dirs w"
  shows "save_snapshot data symbol dir w =
           (Inr (dir @ [snapshot_file symbol (clock w (clock_reads w))]),
            w\<lparr>calls := calls w @ [Save],
              dirs := dirs w \<union> set (prefixes dir),
              clock_reads := Suc (clock_reads w),
              files := (files w)(dir @ [snapshot_file symbol (clock w (clock_reads w))] \<mapsto>
                         JsonText (to_json data))\<rparr>)"
proof -
  have nf: "\<And>q. prefix q dir \<Longrightarrow> files w q = None"
    using nofile by (auto simp: list_ex_iff)
  have "files w dir = None" by (rule nf) simp
  then show ?thesis
    using nofile nodir
    by (simp add: save_snapshot_unfold mkdir_parents_def open_w_def path_join_snapshot_file [OF sym]
          Let_def)
qed

subsection \<open>The ways through \<^verbatim>\<open>create_market_snapshot\<close>\<close>

lemma io_bind_api_get:
  "io_bind (api_get ep resp) g (c, w) =
     (case resp of
        Inl e \<Rightarrow> (Inl e, (c\<lparr>handle_open := True\<rparr>, w\<lparr>calls := calls w @ [Get ep]\<rparr>))
      | Inr x \<Rightarrow> g x (c\<lparr>handle_open := True\<rparr>, w\<lparr>calls := calls w @ [Get ep]\<rparr>))"
  by (simp add: io_bind_def api_get_def split: sum.splits)

lemma io_bind_io_of:
  "io_bind (io_of r) g s = (case r of Inl e \<Rightarrow> (Inl e, s) | Inr x \<Rightarrow> g x s)"
  by (simp add: io_bind_def io_of_def split: sum.splits)

lemma io_bind_on_world_now:
  "io_bind (on_world now) g (c, w) =
     g (clock w (clock_reads w)) (c, w\<lparr>clock_reads := Suc (clock_reads w)\<rparr>)"
  by (simp add: io_bind_def on_world_def now_def)

lemma io_bind_on_world_save:
  "io_bind (on_world (save_snapshot d symbol dir)) (\<lambda>_. io_return x) (c, w) =
     (case save_snapshot d symbol dir w of
        (Inl e, w') \<Rightarrow> (Inl e, (c, w'))
      | (Inr p, w') \<Rightarrow> (Inr x, (c, w')))"
  by (simp add: io_bind_def on_world_def io_return_def split: prod.splits sum.splits)

lemmas getters = get_ticker_price_def get_ticker_24h_def get_order_book_def get_recent_trades_def
  get_avg_price_def get_book_ticker_def get_klines_def

lemmas try_simps = snapshot_try_def getters io_bind_api_get io_bind_io_of io_bind_on_world_now
  io_bind_on_world_save Let_def

text \<open>The three guarded ratios return for every input, with these values.\<close>

lemma trades_buy_length: "trades_buy ts = int (length (filter (\<lambda>t. \<not> is_buyer_maker t) ts))"
  by (induction ts) (simp_all add: trades_buy_def)

lemma trades_sell_length: "trades_sell ts = int (length (filter is_buyer_maker ts))"
  by (induction ts) (simp_all add: trades_sell_def)

lemma buy_sell_ratio_value:
  "buy_sell_ratio ts =
     Inr (if trades_sell ts = 0 then PInt 0
          else PFloat (of_int (trades_buy ts) / of_int (trades_sell ts)))"
  using trades_sell_length [of ts] by (auto simp: buy_sell_ratio_def truediv_def)

lemma bid_ask_ratio_value:
  "bid_ask_ratio ob =
     Inr (if num (total_ask_depth ob) > 0
          then PFloat (num (total_bid_depth ob) / num (total_ask_depth ob)) else PInt 0)"
  by (auto simp: bid_ask_ratio_def truediv_def)

lemma avg_trade_size_value:
  "avg_trade_size ts =
     Inr (if ts = [] then PInt 0
          else PFloat (num (sum_floats [qty t. t \<leftarrow> ts]) / of_nat (length ts)))"
  by (auto simp: avg_trade_size_def truediv_def)

lemma ratios_return:
  obtains bsr bar avg where
    "buy_sell_ratio ts = Inr bsr" "bid_ask_ratio ob = Inr bar" "avg_trade_size ts = Inr avg"
  using buy_sell_ratio_value bid_ask_ratio_value avg_trade_size_value by blast

lemma snapshot_try_fetch_error:
  assumes "first_error (fetch_errors m symbol) = Some e"
  shows "snapshot_try m symbol dir (c, w) =
           (Inl e, (c\<lparr>handle_open := True\<rparr>,
                    w\<lparr>calls := calls w @ map Get (attempted (fetch_errors m symbol) fetch_endpoints)\<rparr>))"
  using assms
  by (simp add: try_simps fetch_errors_def fetch_endpoints_def err_def split: sum.splits)

lemma snapshot_try_fetched:
  assumes "ticker_price_resp m symbol = Inr tp" "ticker_24h_resp m symbol = Inr t24"
     "order_book_resp m symbol 20 = Inr ob" "recent_trades_resp m symbol 100 = Inr ts"
     "avg_price_resp m symbol = Inr ap" "book_ticker_resp m symbol = Inr bt"
     "klines_resp m symbol ''1h'' 24 = Inr k1" "klines_resp m symbol ''4h'' 42 = Inr k4"
     "klines_resp m symbol ''1d'' 30 = Inr kd"
     and "buy_sell_ratio ts = Inr bsr" "bid_ask_ratio ob = Inr bar" "avg_trade_size ts = Inr avg"
  shows "snapshot_try m symbol dir (c, w) =
     (case spread_percent ob of
        Inl e \<Rightarrow> (Inl e, (c\<lparr>handle_open := True\<rparr>, w\<lparr>calls := calls w @ map Get fetch_endpoints\<rparr>))
      | Inr sp \<Rightarrow>
         (let snapshot = snapshot_dict (isoformat (clock w (clock_reads w))) symbol tp t24 ob ts ap
                           (book_ticker_dict bt) k1 k4 kd bsr bar sp avg
          in case save_snapshot snapshot symbol dir
                    (w\<lparr>calls := calls w @ map Get fetch_endpoints,
                       clock_reads := Suc (clock_reads w)\<rparr>) of
               (Inl e, w') \<Rightarrow> (Inl e, (c\<lparr>handle_open := True\<rparr>, w'))
             | (Inr p, w') \<Rightarrow> (Inr snapshot, (c\<lparr>handle_open := True\<rparr>, w'))))"
  using assms by (simp add: try_simps fetch_endpoints_def split: sum.splits)

lemma no_fetch_error:
  assumes "first_error (fetch_errors m symbol) = None"
  obtains tp t24 ob ts ap bt k1 k4 kd where
     "ticker_price_resp m symbol = Inr tp" "ticker_24h_resp m symbol = Inr t24"
     "order_book_resp m symbol 20 = Inr ob" "recent_trades_resp m symbol 100 = Inr ts"
     "avg_price_resp m symbol = Inr ap" "book_ticker_resp m symbol = Inr bt"
     "klines_resp m symbol ''1h'' 24 = Inr k1" "klines_resp m symbol ''4h'' 42 = Inr k4"
     "klines_resp m symbol ''1d'' 30 = Inr kd"
  using assms by (auto simp: fetch_errors_def err_def split: sum.splits)

lemma fetched_no_error:
  assumes "ticker_price_resp m symbol = Inr tp" "ticker_24h_resp m symbol = Inr t24"
     "order_book_resp m symbol 20 = Inr ob" "recent_trades_resp m symbol 100 = Inr ts"
     "avg_price_resp m symbol = Inr ap" "book_ticker_resp m symbol = Inr bt"
     "klines_resp m symbol ''1h'' 24 = Inr k1" "klines_resp m symbol ''4h'' 42 = Inr k4"
     "klines_resp m symbol ''1d'' 30 = Inr kd"
  shows "first_error (fetch_errors m symbol) = None"
  using assms by (simp add: fetch_errors_def err_def)

lemma save_snapshot_calls: "calls (snd (save_snapshot d symbol dir w)) = calls w @ [Save]"
  by (simp add: save_snapshot_unfold mkdir_parents_def open_w_def Let_def
        split: prod.splits sum.splits)

lemma save_snapshot_calls':
  "save_snapshot d symbol dir w = (r, w') \<Longrightarrow> calls w' = calls w @ [Save]"
  using save_snapshot_calls [of d symbol dir w] by simp

lemma snapshot_try_client:
  assumes "snapshot_try m symbol dir (c, w) = (r, (c', w'))"
  shows "c' = c\<lparr>handle_open := True\<rparr> \<and> (\<exists>cs. calls w' = calls w @ cs \<and> Close \<notin> set cs)"
proof (cases "first_error (fetch_errors m symbol)")
  case (Some e)
  show ?thesis
    using assms unfolding snapshot_try_fetch_error [OF Some] by auto
next
  case None
  then obtain tp t24 ob ts ap bt k1 k4 kd where f:
     "ticker_price_resp m symbol = Inr tp" "ticker_24h_resp m symbol = Inr t24"
     "order_book_resp m symbol 20 = Inr ob" "recent_trades_resp m symbol 100 = Inr ts"
     "avg_price_resp m symbol = Inr ap" "book_ticker_resp m symbol = Inr bt"
     "klines_resp m symbol ''1h'' 24 = Inr k1" "klines_resp m symbol ''4h'' 42 = Inr k4"
     "klines_resp m symbol ''1d'' 30 = Inr kd"
    by (rule no_fetch_error)
  obtain bsr bar avg where r:
     "buy_sell_ratio ts = Inr bsr" "bid_ask_ratio ob = Inr bar" "avg_trade_size ts = Inr avg"
    by (rule ratios_return)
  show ?thesis
    using assms unfolding snapshot_try_fetched [OF f r]
    by (auto simp: Let_def split: sum.splits prod.splits dest!: save_snapshot_calls')
qed

lemma create_market_snapshot_unfold:
  "create_market_snapshot m symbol client output_dir w =
     (case snapshot_try m symbol (case output_dir of None \<Rightarrow> SNAPSHOT_DIR | Some d \<Rightarrow> d)
             (case client of None \<Rightarrow> new_client None | Some c \<Rightarrow> c, w) of
        (r, s') \<Rightarrow> (r, if client = None then close s' else s'))"
  by (simp add: create_market_snapshot_def try_finally_def Let_def split: prod.splits)

text \<open>
  Claim C10. For every call of \<^verbatim>\<open>create_market_snapshot\<close>, whatever the market answers and
  whichever way the call ends: without a client, the call works on a client of its own and
  the last thing it does is to close it, once, leaving its handle closed; with a client of
  the caller, the call never closes it, and leaves it with its handle open and its base URL
  unchanged.
\<close>

theorem client_lifecycle:
  "(case create_market_snapshot m symbol None output_dir w of
      (r, c', w') \<Rightarrow> \<not> handle_open c' \<and> calls_between w w' \<noteq> [] \<and>
                      last (calls_between w w') = Close \<and>
                      Close \<notin> set (butlast (calls_between w w'))) \<and>
   (case create_market_snapshot m symbol (Some c) output_dir w of
      (r, c', w') \<Rightarrow> c' = c\<lparr>handle_open := True\<rparr> \<and> Close \<notin> set (calls_between w w'))"
proof -
  have own: "\<not> handle_open c' \<and> calls_between w w' \<noteq> [] \<and> last (calls_between w w') = Close \<and>
             Close \<notin> set (butlast (calls_between w w'))"
    if "create_market_snapshot m symbol None output_dir w = (r, c', w')" for r c' w'
  proof -
    obtain r1 c1 w1 where t1: "snapshot_try m symbol
             (case output_dir of None \<Rightarrow> SNAPSHOT_DIR | Some d \<Rightarrow> d) (new_client None, w) =
               (r1, (c1, w1))"
      by (metis prod_cases3)
    with that have t: "snapshot_try m symbol
             (case output_dir of None \<Rightarrow> SNAPSHOT_DIR | Some d \<Rightarrow> d) (new_client None, w) =
               (r, (c1, w1))" and cl: "(c', w') = close (c1, w1)"
      by (simp_all add: create_market_snapshot_unfold)
    from snapshot_try_client [OF t] obtain cs where "calls w1 = calls w @ cs" "Close \<notin> set cs"
      by blast
    then show ?thesis using cl by (simp add: close_def calls_between_def)
  qed
  have given: "c' = c\<lparr>handle_open := True\<rparr> \<and> Close \<notin> set (calls_between w w')"
    if "create_market_snapshot m symbol (Some c) output_dir w = (r, c', w')" for r c' w'
  proof -
    have t: "snapshot_try m symbol (case output_dir of None \<Rightarrow> SNAPSHOT_DIR | Some d \<Rightarrow> d)
             (c, w) = (r, (c', w'))"
      using that by (auto simp: create_market_snapshot_unfold split: prod.splits)
    from snapshot_try_client [OF t] show ?thesis by (auto simp: calls_between_def)
  qed
  show ?thesis using own given by (auto split: prod.splits)
qed

text \<open>
  Claim C1, as amended. When one of the nine fetches raises, \<^verbatim>\<open>create_market_snapshot\<close>
  raises the exception of the first fetch that fails, unchanged (the code has no
  \<^verbatim>\<open>DataUnavailableError\<close> and adds no operation identity); the fetches after it are not
  made, \<^verbatim>\<open>save_snapshot\<close> is not invoked, and the files and directories are as before.
\<close>

theorem fetch_failure_propagates:
  assumes "first_error (fetch_errors m symbol) = Some e"
  shows "case create_market_snapshot m symbol client output_dir w of
           (r, c', w') \<Rightarrow>
             r = Inl e \<and> files w' = files w \<and> dirs w' = dirs w \<and>
             clock_reads w' = clock_reads w \<and>
             calls_between w w' =
               map Get (attempted (fetch_errors m symbol) fetch_endpoints) @
                 (if client = None then [Close] else []) \<and>
             Save \<notin> set (calls_between w w')"
  by (auto simp: create_market_snapshot_unfold snapshot_try_fetch_error [OF assms] close_def
        calls_between_def)

lemma depth_down_error:
  "first_error (fetch_errors depth_down_market symbol) = Some ConnectError"
  by (simp add: fetch_errors_def depth_down_market_def example_market_def err_def)

theorem fetch_failure_propagates_witness:
  "first_error (fetch_errors depth_down_market ''ETHUSDT'') = Some ConnectError \<and>
   (case create_market_snapshot depth_down_market ''ETHUSDT'' None None empty_world of
      (r, c', w') \<Rightarrow>
        r = Inl ConnectError \<and> files w' = files empty_world \<and> dirs w' = dirs empty_world \<and>
        calls_between empty_world w' =
          [Get ''/api/v3/ticker/price'', Get ''/api/v3/ticker/24hr'', Get ''/api/v3/depth'', Close])"
  using fetch_failure_propagates [OF depth_down_error [of "''ETHUSDT''"],
          where client = None and output_dir = None and w = empty_world]
  by (auto simp: depth_down_error fetch_errors_def depth_down_market_def example_market_def err_def
        fetch_endpoints_def split: prod.splits)

text \<open>
  Claim C1 as stated fails: with the depth fetch raising \<^verbatim>\<open>httpx.ConnectError\<close>, the call
  raises that \<^verbatim>\<open>ConnectError\<close>, which is not a \<^verbatim>\<open>DataUnavailableError\<close>.
\<close>

theorem depth_failure_is_not_data_unavailable:
  "fst (create_market_snapshot depth_down_market ''ETHUSDT'' None None empty_world) =
     Inl (Raised ''ConnectError'' ''All connection attempts failed'') \<and>
   class_name (Raised ''ConnectError'' ''All connection attempts failed'') \<noteq>
     ''DataUnavailableError''"
  by (simp add: create_market_snapshot_unfold snapshot_try_fetch_error [OF depth_down_error]
        ConnectError_def split: prod.splits)

lemma create_success:
  assumes "fst (create_market_snapshot m symbol client output_dir w) = Inr snapshot"
  obtains tp t24 ob ts ap bt k1 k4 kd bsr bar sp avg where
     "ticker_price_resp m symbol = Inr tp" "ticker_24h_resp m symbol = Inr t24"
     "order_book_resp m symbol 20 = Inr ob" "recent_trades_resp m symbol 100 = Inr ts"
     "avg_price_resp m symbol = Inr ap" "book_ticker_resp m symbol = Inr bt"
     "klines_resp m symbol ''1h'' 24 = Inr k1" "klines_resp m symbol ''4h'' 42 = Inr k4"
     "klines_resp m symbol ''1d'' 30 = Inr kd"
     "buy_sell_ratio ts = Inr bsr" "bid_ask_ratio ob = Inr bar" "spread_percent ob = Inr sp"
     "avg_trade_size ts = Inr avg"
     "snapshot = snapshot_dict (isoformat (clock w (clock_reads w))) symbol tp t24 ob ts ap
                   (book_ticker_dict bt) k1 k4 kd bsr bar sp avg"
proof (cases "first_error (fetch_errors m symbol)")
  case (Some e)
  with assms show ?thesis
    by (simp add: create_market_snapshot_unfold snapshot_try_fetch_error [OF Some])
next
  case None
  then obtain tp t24 ob ts ap bt k1 k4 kd where f:
     "ticker_price_resp m symbol = Inr tp" "ticker_24h_resp m symbol = Inr t24"
     "order_book_resp m symbol 20 = Inr ob" "recent_trades_resp m symbol 100 = Inr ts"
     "avg_price_resp m symbol = Inr ap" "book_ticker_resp m symbol = Inr bt"
     "klines_resp m symbol ''1h'' 24 = Inr k1" "klines_resp m symbol ''4h'' 42 = Inr k4"
     "klines_resp m symbol ''1d'' 30 = Inr kd"
    by (rule no_fetch_error)
  obtain bsr bar avg where r:
     "buy_sell_ratio ts = Inr bsr" "bid_ask_ratio ob = Inr bar" "avg_trade_size ts = Inr avg"
    by (rule ratios_return)
  from assms obtain sp where "spread_percent ob = Inr sp"
     "snapshot = snapshot_dict (isoformat (clock w (clock_reads w))) symbol tp t24 ob ts ap
                   (book_ticker_dict bt) k1 k4 kd bsr bar sp avg"
    by (auto simp: create_market_snapshot_unfold snapshot_try_fetched [OF f r] Let_def
          split: sum.splits prod.splits)
  with f r show ?thesis by (intro that [of tp t24 ob ts ap bt k1 k4 kd bsr bar sp avg])
qed

lemma create_fetched_saved:
  assumes "ticker_price_resp m symbol = Inr tp" "ticker_24h_resp m symbol = Inr t24"
     "order_book_resp m symbol 20 = Inr ob" "recent_trades_resp m symbol 100 = Inr ts"
     "avg_price_resp m symbol = Inr ap" "book_ticker_resp m symbol = Inr bt"
     "klines_resp m symbol ''1h'' 24 = Inr k1" "klines_resp m symbol ''4h'' 42 = Inr k4"
     "klines_resp m symbol ''1d'' 30 = Inr kd"
     and "buy_sell_ratio ts = Inr bsr" "bid_ask_ratio ob = Inr bar" "avg_trade_size ts = Inr avg"
     and "spread_percent ob = Inr sp"
     and "save_snapshot (snapshot_dict (isoformat (clock w (clock_reads w))) symbol tp t24 ob ts ap
                   (book_ticker_dict bt) k1 k4 kd bsr bar sp avg) symbol
            (case output_dir of None \<Rightarrow> SNAPSHOT_DIR | Some d \<Rightarrow> d)
            (w\<lparr>calls := calls w @ map Get fetch_endpoints,
               clock_reads := Suc (clock_reads w)\<rparr>) = (Inr p, w')"
  shows "create_market_snapshot m symbol client output_dir w =
           (Inr (snapshot_dict (isoformat (clock w (clock_reads w))) symbol tp t24 ob ts ap
                   (book_ticker_dict bt) k1 k4 kd bsr bar sp avg),
            if client = None then close ((case client of None \<Rightarrow> new_client None | Some c \<Rightarrow> c)\<lparr>handle_open := True\<rparr>, w')
            else ((case client of None \<Rightarrow> new_client None | Some c \<Rightarrow> c)\<lparr>handle_open := True\<rparr>, w'))"
  using assms(13,14)
  by (simp add: create_market_snapshot_unfold snapshot_try_fetched [OF assms(1-12)] Let_def)

lemma buy_sell_total:
  "length (filter (\<lambda>t. \<not> is_buyer_maker t) ts) + length (filter is_buyer_maker ts) = length ts"
  using sum_length_filter_compl [of is_buyer_maker ts] by simp

lemma field_trade_analysis:
  "field (snapshot_dict stamp symbol tp t24 ob ts ap bt k1 k4 kd bsr bar sp avg) [''trade_analysis'', k] =
     map_of [(''total_trades'', PInt (int (length ts))),
             (''buy_trades'', PInt (trades_buy ts)),
             (''sell_trades'', PInt (trades_sell ts)),
             (''buy_sell_ratio'', bsr),
             (''avg_trade_size'', avg)] k"
  by (simp add: snapshot_dict_def dict_get_def)

lemma field_depth_analysis:
  "field (snapshot_dict stamp symbol tp t24 ob ts ap bt k1 k4 kd bsr bar sp avg) [''depth_analysis'', k] =
     map_of [(''total_bid_depth'', total_bid_depth ob),
             (''total_ask_depth'', total_ask_depth ob),
             (''bid_ask_ratio'', bar),
             (''top_bids'', levels (take 5 (bids ob))),
             (''top_asks'', levels (take 5 (asks ob)))] k"
  by (simp add: snapshot_dict_def dict_get_def)

lemma field_klines:
  "field (snapshot_dict stamp symbol tp t24 ob ts ap bt k1 k4 kd bsr bar sp avg) [''klines''] =
     Some (PDict [(''1h'', PList (map asdict (last_n 6 k1))),
                  (''4h'', PList (map asdict (last_n 6 k4))),
                  (''1d'', PList (map asdict (last_n 7 kd)))])"
  by (simp add: snapshot_dict_def dict_get_def)

lemma field_timestamp:
  "field (snapshot_dict stamp symbol tp t24 ob ts ap bt k1 k4 kd bsr bar sp avg) [''timestamp''] =
     Some (PStr stamp)"
  by (simp add: snapshot_dict_def dict_get_def)

lemma last_n_suffix: "suffix (last_n n xs) xs"
  by (simp add: last_n_def suffix_drop)

lemma last_n_length: "length (last_n n xs) = min (length xs) n"
  by (simp add: last_n_def)

lemma example_stamp: "isoformat (example_clock 0) = ''2024-01-15T10:30:00''"
  by (simp add: isoformat_def example_clock_def pad2_def pad4_def digit_def)

lemma example_file: "snapshot_file ''ETHUSDT'' (example_clock (Suc 0)) = ''ethusdt_20240115_103001.json''"
  by (simp add: snapshot_file_def strftime_compact_def example_clock_def pad2_def pad4_def
        digit_def lower_def lower_char_def)

text \<open>A market that differs from the example in its order book and its trades only.\<close>

lemma example_like_run:
  assumes r: "buy_sell_ratio ts = Inr bsr" "bid_ask_ratio ob = Inr bar"
             "avg_trade_size ts = Inr avg"
      and sp: "spread_percent ob = Inr sp"
  shows "create_market_snapshot
           (example_market\<lparr>order_book_resp := (\<lambda>symbol limit. Inr ob),
                           recent_trades_resp := (\<lambda>symbol limit. Inr ts)\<rparr>)
           ''ETHUSDT'' None None empty_world =
         (Inr (snapshot_dict ''2024-01-15T10:30:00'' ''ETHUSDT'' example_price example_24h ob
                 ts 100 (book_ticker_dict example_ticker) (example_klines ''1h'')
                 (example_klines ''4h'') (example_klines ''1d'') bsr bar sp avg),
          \<lparr>base_url = BINANCE_BASE_URL, handle_open = False\<rparr>,
          empty_world\<lparr>calls := map Get fetch_endpoints @ [Save, Close],
                       dirs := {[], [''snapshots'']},
                       clock_reads := 2,
                       files := (\<lambda>p. None)(example_path \<mapsto> JsonText (to_json
                          (snapshot_dict ''2024-01-15T10:30:00'' ''ETHUSDT'' example_price
                             example_24h ob ts 100 (book_ticker_dict example_ticker)
                             (example_klines ''1h'') (example_klines ''4h'') (example_klines ''1d'')
                             bsr bar sp avg)))\<rparr>)"
proof -
  let ?m = "example_market\<lparr>order_book_resp := (\<lambda>symbol limit. Inr ob),
                           recent_trades_resp := (\<lambda>symbol limit. Inr ts)\<rparr>"
  let ?w = "empty_world\<lparr>calls := calls empty_world @ map Get fetch_endpoints,
               clock_reads := Suc (clock_reads empty_world)\<rparr>"
  have f: "ticker_price_resp ?m ''ETHUSDT'' = Inr example_price"
     "ticker_24h_resp ?m ''ETHUSDT'' = Inr example_24h"
     "order_book_resp ?m ''ETHUSDT'' 20 = Inr ob"
     "recent_trades_resp ?m ''ETHUSDT'' 100 = Inr ts"
     "avg_price_resp ?m ''ETHUSDT'' = Inr 100"
     "book_ticker_resp ?m ''ETHUSDT'' = Inr example_ticker"
     "klines_resp ?m ''ETHUSDT'' ''1h'' 24 = Inr (example_klines ''1h'')"
     "klines_resp ?m ''ETHUSDT'' ''4h'' 42 = Inr (example_klines ''4h'')"
     "klines_resp ?m ''ETHUSDT'' ''1d'' 30 = Inr (example_klines ''1d'')"
    by (simp_all add: example_market_def)
  have sym: "CHR ''/'' \<notin> set ''ETHUSDT''" by simp
  have nofile: "\<not> list_ex (\<lambda>q. files ?w q \<noteq> None) (prefixes SNAPSHOT_DIR)"
    by (simp add: empty_world_def SNAPSHOT_DIR_def)
  have nodir: "SNAPSHOT_DIR @ [snapshot_file ''ETHUSDT'' (clock ?w (clock_reads ?w))] \<notin> dirs ?w"
    by (simp add: empty_world_def SNAPSHOT_DIR_def)
  note sv = save_snapshot_ok [OF sym nofile nodir]
  show ?thesis
    apply (subst create_fetched_saved [OF f r sp, where w = empty_world and output_dir = None])
     apply (simp add: example_stamp empty_world_def)
     apply (rule sv [unfolded empty_world_def, simplified])
    apply (simp add: example_stamp example_file empty_world_def close_def new_client_def
             SNAPSHOT_DIR_def example_path_def)
    done
qed

lemma example_ratios:
  "buy_sell_ratio example_trades = Inr (PFloat (7 / 3))"
  "bid_ask_ratio example_book = Inr (PFloat 1)"
  "avg_trade_size example_trades = Inr (PFloat 2)"
  "spread_percent example_book = Inr (PFloat (1 / 100 * 100))"
  by (simp_all add: buy_sell_ratio_def bid_ask_ratio_def avg_trade_size_def truediv_def
        trades_buy_def trades_sell_def total_bid_depth_def total_ask_depth_def sum_floats_def
        spread_percent_def spread_def example_trades_def trade_def example_book_def)

lemma example_market_same:
  "example_market\<lparr>order_book_resp := (\<lambda>symbol limit. Inr example_book),
                  recent_trades_resp := (\<lambda>symbol limit. Inr example_trades)\<rparr> = example_market"
  by (simp add: example_market_def)

lemma example_run_full:
  "create_market_snapshot example_market ''ETHUSDT'' None None empty_world =
     (Inr example_snapshot,
      \<lparr>base_url = BINANCE_BASE_URL, handle_open = False\<rparr>,
      empty_world\<lparr>calls := map Get fetch_endpoints @ [Save, Close],
                   dirs := {[], [''snapshots'']},
                   clock_reads := 2,
                   files := (\<lambda>p. None)(example_path \<mapsto> JsonText (to_json example_snapshot))\<rparr>)"
  using example_like_run [OF example_ratios(1,2,3,4)] unfolding example_market_same
  by (simp add: example_snapshot_def)

subsection \<open>The analytics of a snapshot\<close>

lemma example_run:
  "fst (create_market_snapshot example_market ''ETHUSDT'' None None empty_world) =
     Inr example_snapshot"
  by (simp add: example_run_full)

lemma example_responses:
  "recent_trades_resp example_market ''ETHUSDT'' 100 = Inr example_trades"
  "order_book_resp example_market ''ETHUSDT'' 20 = Inr example_book"
  "klines_resp example_market ''ETHUSDT'' ''1h'' 24 = Inr (example_klines ''1h'')"
  "klines_resp example_market ''ETHUSDT'' ''4h'' 42 = Inr (example_klines ''4h'')"
  "klines_resp example_market ''ETHUSDT'' ''1d'' 30 = Inr (example_klines ''1d'')"
  by (simp_all add: example_market_def)

text \<open>
  Claim C4. In the snapshot that a run returns, \<^verbatim>\<open>buy_trades\<close> counts the trades whose
  maker-is-buyer flag is false and \<^verbatim>\<open>sell_trades\<close> those whose flag is true; the two add
  up to \<^verbatim>\<open>total_trades\<close>, the length of the sample. A sample with 7 flags false and 3 true
  gives 7, 3 and the ratio 7/3, which is 2.33 to two decimals.
\<close>

theorem trade_classification:
  assumes run: "fst (create_market_snapshot m symbol client output_dir w) = Inr snapshot"
      and ts: "recent_trades_resp m symbol 100 = Inr ts"
  shows "field snapshot [''trade_analysis'', ''buy_trades''] =
           Some (PInt (int (length (filter (\<lambda>t. \<not> is_buyer_maker t) ts)))) \<and>
         field snapshot [''trade_analysis'', ''sell_trades''] =
           Some (PInt (int (length (filter is_buyer_maker ts)))) \<and>
         field snapshot [''trade_analysis'', ''total_trades''] = Some (PInt (int (length ts))) \<and>
         length (filter (\<lambda>t. \<not> is_buyer_maker t) ts) + length (filter is_buyer_maker ts) =
           length ts \<and>
         (length (filter (\<lambda>t. \<not> is_buyer_maker t) ts) = 7 \<and>
          length (filter is_buyer_maker ts) = 3 \<longrightarrow>
            length ts = 10 \<and>
            field snapshot [''trade_analysis'', ''buy_sell_ratio''] = Some (PFloat (7 / 3)) \<and>
            \<bar>(7 / 3 :: rat) - 233 / 100\<bar> < 1 / 100)"
proof -
  from run obtain tp t24 ob ts' ap bt k1 k4 kd bsr bar sp avg where
     ts': "recent_trades_resp m symbol 100 = Inr ts'" and
     b: "buy_sell_ratio ts' = Inr bsr" and
     s: "snapshot = snapshot_dict (isoformat (clock w (clock_reads w))) symbol tp t24 ob ts' ap
                   (book_ticker_dict bt) k1 k4 kd bsr bar sp avg"
    by (rule create_success)
  from ts ts' have [simp]: "ts' = ts" by simp
  have tot: "length (filter (\<lambda>t. \<not> is_buyer_maker t) ts) + length (filter is_buyer_maker ts) =
           length ts"
    by (rule buy_sell_total)
  show ?thesis
    unfolding s field_trade_analysis using tot b [unfolded buy_sell_ratio_value]
    by (auto simp: trades_buy_length trades_sell_length)
qed

theorem trade_classification_witness:
  "fst (create_market_snapshot example_market ''ETHUSDT'' None None empty_world) =
     Inr example_snapshot \<and>
   recent_trades_resp example_market ''ETHUSDT'' 100 = Inr example_trades \<and>
   length (filter (\<lambda>t. \<not> is_buyer_maker t) example_trades) = 7 \<and>
   length (filter is_buyer_maker example_trades) = 3 \<and>
   length example_trades = 10 \<and>
   field example_snapshot [''trade_analysis'', ''buy_trades''] = Some (PInt 7) \<and>
   field example_snapshot [''trade_analysis'', ''sell_trades''] = Some (PInt 3) \<and>
   field example_snapshot [''trade_analysis'', ''total_trades''] = Some (PInt 10) \<and>
   field example_snapshot [''trade_analysis'', ''buy_sell_ratio''] = Some (PFloat (7 / 3))"
proof -
  have c: "length (filter (\<lambda>t. \<not> is_buyer_maker t) example_trades) = 7"
          "length (filter is_buyer_maker example_trades) = 3"
    by (simp_all add: example_trades_def trade_def)
  show ?thesis
    using trade_classification [OF example_run example_responses(1)] c
    by (simp add: example_run example_responses)
qed

text \<open>
  Claim C6. In the snapshot that a run returns, the \<^verbatim>\<open>klines\<close> mapping holds, under
  \<^verbatim>\<open>"1h"\<close>, \<^verbatim>\<open>"4h"\<close> and \<^verbatim>\<open>"1d"\<close>, the dictionaries of a suffix of the fetched series (so
  the most recent candles, in their order) of length \<open>min n K\<close> for a series of \<open>n\<close> candles,
  with \<open>K\<close> = 6, 6 and 7; a series of at most \<open>K\<close> candles is therefore kept whole.
\<close>

theorem candle_truncation:
  assumes run: "fst (create_market_snapshot m symbol client output_dir w) = Inr snapshot"
      and k: "klines_resp m symbol ''1h'' 24 = Inr k1" "klines_resp m symbol ''4h'' 42 = Inr k4"
             "klines_resp m symbol ''1d'' 30 = Inr kd"
  shows "field snapshot [''klines''] =
           Some (PDict [(''1h'', PList (map asdict (last_n 6 k1))),
                        (''4h'', PList (map asdict (last_n 6 k4))),
                        (''1d'', PList (map asdict (last_n 7 kd)))]) \<and>
         suffix (last_n 6 k1) k1 \<and> length (last_n 6 k1) = min (length k1) 6 \<and>
         suffix (last_n 6 k4) k4 \<and> length (last_n 6 k4) = min (length k4) 6 \<and>
         suffix (last_n 7 kd) kd \<and> length (last_n 7 kd) = min (length kd) 7"
proof -
  from run obtain tp t24 ob ts ap bt k1' k4' kd' bsr bar sp avg where
     k': "klines_resp m symbol ''1h'' 24 = Inr k1'" "klines_resp m symbol ''4h'' 42 = Inr k4'"
         "klines_resp m symbol ''1d'' 30 = Inr kd'" and
     s: "snapshot = snapshot_dict (isoformat (clock w (clock_reads w))) symbol tp t24 ob ts ap
                   (book_ticker_dict bt) k1' k4' kd' bsr bar sp avg"
    by (rule create_success)
  from k k' have [simp]: "k1' = k1" "k4' = k4" "kd' = kd" by simp_all
  show ?thesis
    unfolding s field_klines by (simp add: last_n_suffix last_n_length)
qed

theorem candle_truncation_witness:
  "fst (create_market_snapshot example_market ''ETHUSDT'' None None empty_world) =
     Inr example_snapshot \<and>
   klines_resp example_market ''ETHUSDT'' ''1h'' 24 = Inr (map candle [1, 2, 3, 4, 5, 6, 7, 8]) \<and>
   klines_resp example_market ''ETHUSDT'' ''4h'' 42 = Inr (map candle [1, 2, 3]) \<and>
   klines_resp example_market ''ETHUSDT'' ''1d'' 30 =
     Inr (map candle [1, 2, 3, 4, 5, 6, 7, 8, 9]) \<and>
   field example_snapshot [''klines''] =
     Some (PDict [(''1h'', PList (map asdict (map candle [3, 4, 5, 6, 7, 8]))),
                  (''4h'', PList (map asdict (map candle [1, 2, 3]))),
                  (''1d'', PList (map asdict (map candle [3, 4, 5, 6, 7, 8, 9])))])"
  using candle_truncation [OF example_run example_responses(3-5)]
  by (simp add: example_run example_responses example_klines_def last_n_def)

lemma num_sum_floats: "num (sum_floats xs) = sum_list xs"
  by (simp add: sum_floats_def)

lemma depth_quantities: "[q. (p, q) \<leftarrow> ls] = map snd ls"
  by (induction ls) auto

lemma sum_list_nonneg_zero:
  "list_all (\<lambda>x. 0 \<le> x) xs \<Longrightarrow> (0 < sum_list xs) = (sum_list xs \<noteq> (0::rat))"
  using sum_list_nonneg [of xs] by (auto simp: list_all_iff less_le)

lemma save_never_divides:
  "fst (save_snapshot d symbol dir w) \<noteq> Inl ZeroDivisionError"
  by (simp add: save_snapshot_unfold mkdir_parents_def open_w_def Let_def
        split: prod.splits sum.splits)

lemma quiet_ratios:
  "buy_sell_ratio [] = Inr (PInt 0)"
  "bid_ask_ratio zero_ask_book = Inr (PInt 0)"
  "avg_trade_size [] = Inr (PInt 0)"
  "spread_percent zero_ask_book = Inr (PFloat 1)"
  by (simp_all add: buy_sell_ratio_def bid_ask_ratio_def avg_trade_size_def truediv_def
        trades_buy_def trades_sell_def total_bid_depth_def total_ask_depth_def sum_floats_def
        spread_percent_def spread_def zero_ask_book_def example_book_def)

lemma quiet_run:
  "fst (create_market_snapshot quiet_market ''ETHUSDT'' None None empty_world) =
     Inr quiet_snapshot"
  using example_like_run [OF quiet_ratios(1,2,3,4)]
  by (simp add: quiet_market_def quiet_snapshot_def)

lemma quiet_responses:
  "first_error (fetch_errors quiet_market ''ETHUSDT'') = None"
  "recent_trades_resp quiet_market ''ETHUSDT'' 100 = Inr []"
  "order_book_resp quiet_market ''ETHUSDT'' 20 = Inr zero_ask_book"
  by (simp_all add: quiet_market_def example_market_def fetch_errors_def err_def)

text \<open>
  Claim C5. For every trade sample and every order book (the quantities of the ask levels
  being non-negative, as the quantities of an order book are): \<^verbatim>\<open>buy_sell_ratio\<close> returns
  the number of buyer-initiated trades divided by the number of seller-initiated trades,
  and 0 when there is no seller-initiated trade; the average trade size returns the sum of
  the quantities divided by the number of trades, and 0 for an empty sample;
  \<^verbatim>\<open>bid_ask_ratio\<close> returns the total bid depth divided by the total ask depth, the totals
  being the sums of the quantities of all levels of a side, and 0 when the total ask depth
  is 0. None of the three divisions raises, whatever the denominator. When these are the
  sample and the order book of a call whose fetches all return and whose spread percent
  does not raise, the call never ends in \<^verbatim>\<open>ZeroDivisionError\<close>, and the document it
  returns carries these values.
\<close>

theorem ratio_guards:
  assumes nonneg: "list_all (\<lambda>l. 0 \<le> snd l) (asks ob)"
  shows "buy_sell_ratio ts =
           Inr (if length (filter is_buyer_maker ts) = 0 then PInt 0
                else PFloat (of_nat (length (filter (\<lambda>t. \<not> is_buyer_maker t) ts)) /
                             of_nat (length (filter is_buyer_maker ts)))) \<and>
         avg_trade_size ts =
           Inr (if length ts = 0 then PInt 0
                else PFloat (sum_list (map qty ts) / of_nat (length ts))) \<and>
         num (total_bid_depth ob) = sum_list (map snd (bids ob)) \<and>
         num (total_ask_depth ob) = sum_list (map snd (asks ob)) \<and>
         bid_ask_ratio ob =
           Inr (if sum_list (map snd (asks ob)) = 0 then PInt 0
                else PFloat (sum_list (map snd (bids ob)) / sum_list (map snd (asks ob)))) \<and>
         (first_error (fetch_errors m symbol) = None \<and>
          recent_trades_resp m symbol 100 = Inr ts \<and>
          order_book_resp m symbol 20 = Inr ob \<and>
          spread_percent ob = Inr sp \<longrightarrow>
          (case fst (create_market_snapshot m symbol client output_dir w) of
             Inl e \<Rightarrow> e \<noteq> ZeroDivisionError
           | Inr snapshot \<Rightarrow>
               field snapshot [''trade_analysis'', ''buy_sell_ratio''] =
                 Some (if length (filter is_buyer_maker ts) = 0 then PInt 0
                       else PFloat (of_nat (length (filter (\<lambda>t. \<not> is_buyer_maker t) ts)) /
                                    of_nat (length (filter is_buyer_maker ts)))) \<and>
               field snapshot [''trade_analysis'', ''avg_trade_size''] =
                 Some (if length ts = 0 then PInt 0
                       else PFloat (sum_list (map qty ts) / of_nat (length ts))) \<and>
               field snapshot [''depth_analysis'', ''total_bid_depth''] =
                 Some (total_bid_depth ob) \<and>
               field snapshot [''depth_analysis'', ''total_ask_depth''] =
                 Some (total_ask_depth ob) \<and>
               field snapshot [''depth_analysis'', ''bid_ask_ratio''] =
                 Some (if sum_list (map snd (asks ob)) = 0 then PInt 0
                       else PFloat (sum_list (map snd (bids ob)) /
                                    sum_list (map snd (asks ob))))))"
proof -
  let ?bsr = "if length (filter is_buyer_maker ts) = 0 then PInt 0
                else PFloat (of_nat (length (filter (\<lambda>t. \<not> is_buyer_maker t) ts)) /
                             of_nat (length (filter is_buyer_maker ts)))"
  let ?avg = "if length ts = 0 then PInt 0
                else PFloat (sum_list (map qty ts) / of_nat (length ts))"
  let ?bar = "if sum_list (map snd (asks ob)) = 0 then PInt 0
                else PFloat (sum_list (map snd (bids ob)) / sum_list (map snd (asks ob)))"
  have pos: "(0 < sum_list (map snd (asks ob))) = (sum_list (map snd (asks ob)) \<noteq> 0)"
    using nonneg by (intro sum_list_nonneg_zero) (simp add: list_all_iff)
  have bsr: "buy_sell_ratio ts = Inr ?bsr"
    by (simp add: buy_sell_ratio_value trades_buy_length trades_sell_length)
  have avg: "avg_trade_size ts = Inr ?avg"
    by (simp add: avg_trade_size_value num_sum_floats)
  have tot: "num (total_bid_depth ob) = sum_list (map snd (bids ob))"
            "num (total_ask_depth ob) = sum_list (map snd (asks ob))"
    by (simp_all add: total_bid_depth_def total_ask_depth_def num_sum_floats depth_quantities)
  have bar: "bid_ask_ratio ob = Inr ?bar"
    using pos by (simp add: bid_ask_ratio_value tot)
  have run: "case fst (create_market_snapshot m symbol client output_dir w) of
            Inl e \<Rightarrow> e \<noteq> ZeroDivisionError
          | Inr snapshot \<Rightarrow>
              field snapshot [''trade_analysis'', ''buy_sell_ratio''] = Some ?bsr \<and>
              field snapshot [''trade_analysis'', ''avg_trade_size''] = Some ?avg \<and>
              field snapshot [''depth_analysis'', ''total_bid_depth''] =
                Some (total_bid_depth ob) \<and>
              field snapshot [''depth_analysis'', ''total_ask_depth''] =
                Some (total_ask_depth ob) \<and>
              field snapshot [''depth_analysis'', ''bid_ask_ratio''] = Some ?bar"
    if fetched: "first_error (fetch_errors m symbol) = None"
      and ts: "recent_trades_resp m symbol 100 = Inr ts"
      and ob: "order_book_resp m symbol 20 = Inr ob"
      and sp: "spread_percent ob = Inr sp"
  proof -
    obtain tp t24 ob' ts' ap bt k1 k4 kd where f:
       "ticker_price_resp m symbol = Inr tp" "ticker_24h_resp m symbol = Inr t24"
       "order_book_resp m symbol 20 = Inr ob'" "recent_trades_resp m symbol 100 = Inr ts'"
       "avg_price_resp m symbol = Inr ap" "book_ticker_resp m symbol = Inr bt"
       "klines_resp m symbol ''1h'' 24 = Inr k1" "klines_resp m symbol ''4h'' 42 = Inr k4"
       "klines_resp m symbol ''1d'' 30 = Inr kd"
      using fetched by (rule no_fetch_error)
    from ts ob f(3,4) have same: "ts' = ts" "ob' = ob" by simp_all
    let ?S = "snapshot_dict (isoformat (clock w (clock_reads w))) symbol tp t24 ob ts ap
                (book_ticker_dict bt) k1 k4 kd ?bsr ?bar sp ?avg"
    let ?dir = "case output_dir of None \<Rightarrow> SNAPSHOT_DIR | Some d \<Rightarrow> d"
    let ?W = "w\<lparr>calls := calls w @ map Get fetch_endpoints,
                clock_reads := Suc (clock_reads w)\<rparr>"
    obtain r w' where sv: "save_snapshot ?S symbol ?dir ?W = (r, w')"
      by (cases "save_snapshot ?S symbol ?dir ?W")
    have nz: "r \<noteq> Inl ZeroDivisionError"
      using save_never_divides [of ?S symbol ?dir ?W] unfolding sv by simp
    have res: "fst (create_market_snapshot m symbol client output_dir w) =
                 (case r of Inl e \<Rightarrow> Inl e | Inr p \<Rightarrow> Inr ?S)"
      unfolding create_market_snapshot_unfold
        snapshot_try_fetched [OF f [unfolded same] bsr bar avg] sp sum.case Let_def sv
      by (simp split: sum.splits)
    have fields:
      "field ?S [''trade_analysis'', ''buy_sell_ratio''] = Some ?bsr"
      "field ?S [''trade_analysis'', ''avg_trade_size''] = Some ?avg"
      "field ?S [''depth_analysis'', ''total_bid_depth''] = Some (total_bid_depth ob)"
      "field ?S [''depth_analysis'', ''total_ask_depth''] = Some (total_ask_depth ob)"
      "field ?S [''depth_analysis'', ''bid_ask_ratio''] = Some ?bar"
      unfolding field_trade_analysis field_depth_analysis by simp_all
    show ?thesis
    proof (cases r)
      case (Inl e)
      with nz res show ?thesis by simp
    next
      case (Inr p)
      with res fields show ?thesis by (simp only: sum.case)
    qed
  qed
  from bsr avg tot bar run show ?thesis by blast
qed

theorem ratio_guards_witness:
  "list_all (\<lambda>l. 0 \<le> snd l) (asks zero_ask_book) \<and>
   first_error (fetch_errors quiet_market ''ETHUSDT'') = None \<and>
   recent_trades_resp quiet_market ''ETHUSDT'' 100 = Inr [] \<and>
   order_book_resp quiet_market ''ETHUSDT'' 20 = Inr zero_ask_book \<and>
   spread_percent zero_ask_book = Inr (PFloat 1) \<and>
   length (filter is_buyer_maker []) = 0 \<and>
   sum_list (map snd (asks zero_ask_book)) = 0 \<and>
   buy_sell_ratio [] = Inr (PInt 0) \<and>
   avg_trade_size [] = Inr (PInt 0) \<and>
   bid_ask_ratio zero_ask_book = Inr (PInt 0) \<and>
   fst (create_market_snapshot quiet_market ''ETHUSDT'' None None empty_world) =
     Inr quiet_snapshot \<and>
   field quiet_snapshot [''trade_analysis'', ''buy_sell_ratio''] = Some (PInt 0) \<and>
   field quiet_snapshot [''trade_analysis'', ''avg_trade_size''] = Some (PInt 0) \<and>
   field quiet_snapshot [''depth_analysis'', ''bid_ask_ratio''] = Some (PInt 0) \<and>
   list_all (\<lambda>l. 0 \<le> snd l) (asks example_book) \<and>
   buy_sell_ratio example_trades = Inr (PFloat (7 / 3)) \<and>
   avg_trade_size example_trades = Inr (PFloat 2) \<and>
   bid_ask_ratio example_book = Inr (PFloat 1)"
proof -
  have nonneg: "list_all (\<lambda>l. 0 \<le> snd l) (asks zero_ask_book)"
    by (simp add: zero_ask_book_def example_book_def)
  have zero: "sum_list (map snd (asks zero_ask_book)) = 0"
    by (simp add: zero_ask_book_def example_book_def)
  have nonneg': "list_all (\<lambda>l. 0 \<le> snd l) (asks example_book)"
    by (simp add: example_book_def)
  show ?thesis
    using ratio_guards [OF nonneg, where ts = "[]" and m = quiet_market
            and symbol = "''ETHUSDT''" and sp = "PFloat 1" and client = None
            and output_dir = None and w = empty_world]
      ratio_guards [OF nonneg', where ts = example_trades and m = example_market
            and symbol = "''ETHUSDT''" and sp = "PFloat 1" and client = None
            and output_dir = None and w = empty_world]
      nonneg zero nonneg'
    by (simp add: quiet_responses quiet_ratios quiet_run example_ratios)
qed

text \<open>
  Claim C2, at an order book whose best bid has price 0 (and whose ask side is not empty):
  the spread percent is not 0; the division of line 76 raises \<^verbatim>\<open>ZeroDivisionError\<close>, and
  with it the whole call, which saves nothing.
\<close>

theorem zero_best_bid_raises:
  "bids zero_bid_book = [(0, 1)] \<and>
   spread zero_bid_book = PFloat 101 \<and>
   spread_percent zero_bid_book = Inl ZeroDivisionError \<and>
   order_book_resp zero_bid_market ''ETHUSDT'' 20 = Inr zero_bid_book \<and>
   first_error (fetch_errors zero_bid_market ''ETHUSDT'') = None \<and>
   fst (create_market_snapshot zero_bid_market ''ETHUSDT'' None None empty_world) =
     Inl ZeroDivisionError"
proof -
  have f: "ticker_price_resp zero_bid_market ''ETHUSDT'' = Inr example_price"
     "ticker_24h_resp zero_bid_market ''ETHUSDT'' = Inr example_24h"
     "order_book_resp zero_bid_market ''ETHUSDT'' 20 = Inr zero_bid_book"
     "recent_trades_resp zero_bid_market ''ETHUSDT'' 100 = Inr example_trades"
     "avg_price_resp zero_bid_market ''ETHUSDT'' = Inr 100"
     "book_ticker_resp zero_bid_market ''ETHUSDT'' = Inr example_ticker"
     "klines_resp zero_bid_market ''ETHUSDT'' ''1h'' 24 = Inr (example_klines ''1h'')"
     "klines_resp zero_bid_market ''ETHUSDT'' ''4h'' 42 = Inr (example_klines ''4h'')"
     "klines_resp zero_bid_market ''ETHUSDT'' ''1d'' 30 = Inr (example_klines ''1d'')"
    by (simp_all add: zero_bid_market_def example_market_def)
  have sp: "spread_percent zero_bid_book = Inl ZeroDivisionError"
    by (simp add: spread_percent_def zero_bid_book_def example_book_def)
  obtain bsr bar avg where r:
     "buy_sell_ratio example_trades = Inr bsr" "bid_ask_ratio zero_bid_book = Inr bar"
     "avg_trade_size example_trades = Inr avg"
    by (rule ratios_return)
  have "fst (create_market_snapshot zero_bid_market ''ETHUSDT'' None None empty_world) =
     Inl ZeroDivisionError"
    by (simp add: create_market_snapshot_unfold snapshot_try_fetched [OF f r] sp)
  then show ?thesis
    using sp f(3) fetched_no_error [OF f]
    by (simp add: zero_bid_book_def example_book_def spread_def)
qed

text \<open>
  Away from a best bid of price 0 the values are those of the claim: the spread is best ask
  minus best bid when both sides have a level and 0 otherwise, and the spread percent is the
  spread over the best bid times 100 when the bid side has a level and 0 otherwise.
\<close>

lemma spread_values:
  assumes run: "fst (create_market_snapshot m symbol client output_dir w) = Inr snapshot"
      and ob: "order_book_resp m symbol 20 = Inr ob"
  shows "field snapshot [''spread'', ''absolute''] =
           Some (if asks ob \<noteq> [] \<and> bids ob \<noteq> []
                 then PFloat (fst (hd (asks ob)) - fst (hd (bids ob))) else PInt 0) \<and>
         (bids ob = [] \<or> fst (hd (bids ob)) \<noteq> 0) \<and>
         field snapshot [''spread'', ''percent''] =
           Some (if bids ob \<noteq> []
                 then PFloat ((if asks ob \<noteq> [] then fst (hd (asks ob)) - fst (hd (bids ob)) else 0) /
                              fst (hd (bids ob)) * 100)
                 else PInt 0)"
proof -
  from run obtain tp t24 ob' ts ap bt k1 k4 kd bsr bar sp avg where
     r: "order_book_resp m symbol 20 = Inr ob'" "spread_percent ob' = Inr sp" and
     s: "snapshot = snapshot_dict (isoformat (clock w (clock_reads w))) symbol tp t24 ob' ts ap
                   (book_ticker_dict bt) k1 k4 kd bsr bar sp avg"
    by (rule create_success)
  from ob r have [simp]: "ob' = ob" by simp
  show ?thesis
    using r(2) unfolding s
    by (auto simp: snapshot_dict_def dict_get_def spread_percent_def spread_def
          split: if_splits)
qed

subsection \<open>Saving and loading\<close>

lemma dict_set_fresh: "k \<notin> fst ` set d \<Longrightarrow> dict_set d k v = d @ [(k, v)]"
  by (induction d) auto

lemma foldl_dict_set:
  "distinct (map fst (acc @ kvs)) \<Longrightarrow> foldl (\<lambda>d (k, v). dict_set d k v) acc kvs = acc @ kvs"
proof (induction kvs arbitrary: acc)
  case Nil
  then show ?case by simp
next
  case (Cons kv kvs)
  obtain k v where kv: "kv = (k, v)" by (cases kv)
  from Cons.prems have fresh: "k \<notin> fst ` set acc" by (auto simp: kv)
  from Cons.prems have "distinct (map fst ((acc @ [(k, v)]) @ kvs))" by (simp add: kv)
  from Cons.IH [OF this] show ?case by (simp add: kv dict_set_fresh [OF fresh])
qed

lemma dict_of_items_distinct: "distinct (map fst kvs) \<Longrightarrow> dict_of_items kvs = kvs"
  using foldl_dict_set [of "[]" kvs] by (simp add: dict_of_items_def)

lemma from_to_json: "wf_pyval v \<Longrightarrow> from_json (to_json v) = tuples_to_lists v"
proof (induction v)
  case (PList vs)
  then show ?case by (simp add: list_all_iff)
next
  case (PTuple vs)
  then show ?case by (simp add: list_all_iff)
next
  case (PDict kvs)
  have keys: "map fst (map (map_prod id from_json) (map (map_prod id to_json) kvs)) = map fst kvs"
    by simp
  have vals: "map (map_prod id from_json) (map (map_prod id to_json) kvs) =
                map (map_prod id tuples_to_lists) kvs"
  proof (rule list.map_cong0 [THEN trans [OF list.map_comp]])
    fix kv assume "kv \<in> set kvs"
    moreover obtain k v where kv: "kv = (k, v)" by (cases kv)
    ultimately have "from_json (to_json v) = tuples_to_lists v"
      using PDict by (auto simp: list_all_iff)
    then show "(map_prod id from_json \<circ> map_prod id to_json) kv = map_prod id tuples_to_lists kv"
      by (simp add: kv)
  qed
  from PDict.prems have d: "distinct (map fst kvs)" by simp
  have "distinct (map fst (map (map_prod id from_json) (map (map_prod id to_json) kvs)))"
    unfolding keys by (rule d)
  then have "dict_of_items (map (map_prod id from_json) (map (map_prod id to_json) kvs)) =
               map (map_prod id from_json) (map (map_prod id to_json) kvs)"
    by (rule dict_of_items_distinct)
  then show ?case using vals by simp
qed simp_all

lemma tuples_to_lists_id: "tuple_free v \<Longrightarrow> tuples_to_lists v = v"
proof (induction v)
  case (PList vs)
  then show ?case by (simp add: list_all_iff map_idI)
next
  case (PDict kvs)
  have "map (map_prod id tuples_to_lists) kvs = kvs"
  proof (rule map_idI)
    fix kv assume "kv \<in> set kvs"
    moreover obtain k v where kv: "kv = (k, v)" by (cases kv)
    ultimately show "map_prod id tuples_to_lists kv = kv"
      using PDict by (auto simp: list_all_iff)
  qed
  then show ?case by simp
qed simp_all

lemma proper_prefixes: "set (butlast (prefixes p)) = {q. strict_prefix q p}"
  by (cases p rule: rev_cases) (auto simp: strict_prefix_def)

lemma save_snapshot_Inr:
  assumes "save_snapshot d symbol dir w = (Inr p, w')"
  shows "files w' p = Some (JsonText (to_json d)) \<and> p \<notin> dirs w' \<and>
         \<not> list_ex (\<lambda>q. files w' q \<noteq> None) (butlast (prefixes p)) \<and>
         p = path_join dir (snapshot_file symbol (clock w (clock_reads w))) \<and>
         set (prefixes dir) \<subseteq> dirs w' \<and> butlast p \<in> dirs w'"
  using assms
  by (auto simp: save_snapshot_unfold mkdir_parents_def open_w_def Let_def list_ex_iff
        proper_prefixes split: if_splits)

lemma load_snapshot_unfold:
  "load_snapshot p w =
     (if p \<in> dirs w then Inl (IsADirectoryError p)
      else if list_ex (\<lambda>q. files w q \<noteq> None) (butlast (prefixes p))
        then Inl (NotADirectoryError p)
      else case files w p of
             None \<Rightarrow> Inl (FileNotFoundError p)
           | Some (OtherText e) \<Rightarrow> Inl e
           | Some (JsonText j) \<Rightarrow> Inr (from_json j), w)"
  by (simp add: load_snapshot_def open_r_def json_load_def io_bind_def io_raise_def io_return_def
        split: option.splits file_data.splits)

lemma snapshot_dict_wf:
  assumes "wf_pyval bsr" "wf_pyval bar" "wf_pyval sp" "wf_pyval avg"
  shows "wf_pyval (snapshot_dict stamp symbol tp t24 ob ts ap (book_ticker_dict bt) k1 k4 kd
                     bsr bar sp avg)"
  using assms
  by (simp add: snapshot_dict_def book_ticker_dict_def levels_def asdict_def list_all_iff
        spread_def total_bid_depth_def total_ask_depth_def sum_floats_def split_beta)

lemma snapshot_dict_schema:
  "spec_schema (snapshot_dict stamp symbol tp t24 ob ts ap (book_ticker_dict bt) k1 k4 kd
                  bsr bar sp avg)"
  by (simp add: spec_schema_def has_keys_def sub_keys_def dict_get_def snapshot_dict_def
        book_ticker_dict_def)

lemma empty_book_tuple_free: "tuple_free empty_book_snapshot"
  by (simp add: empty_book_snapshot_def snapshot_dict_def book_ticker_dict_def levels_def
        asdict_def list_all_iff empty_book_def example_book_def
        spread_def total_bid_depth_def total_ask_depth_def sum_floats_def split_beta)

lemma example_save:
  "\<exists>w'. save_snapshot d ''ETHUSDT'' SNAPSHOT_DIR (empty_world\<lparr>clock_reads := Suc 0\<rparr>) =
          (Inr example_path, w')"
proof -
  let ?w = "empty_world\<lparr>clock_reads := Suc 0\<rparr>"
  have sym: "CHR ''/'' \<notin> set ''ETHUSDT''" by simp
  have nofile: "\<not> list_ex (\<lambda>q. files ?w q \<noteq> None) (prefixes SNAPSHOT_DIR)"
    by (simp add: empty_world_def SNAPSHOT_DIR_def)
  have nodir: "SNAPSHOT_DIR @ [snapshot_file ''ETHUSDT'' (clock ?w (clock_reads ?w))] \<notin> dirs ?w"
    by (simp add: empty_world_def SNAPSHOT_DIR_def)
  show ?thesis
    using save_snapshot_ok [OF sym nofile nodir, of d]
    by (simp add: empty_world_def example_file SNAPSHOT_DIR_def example_path_def)
qed

lemma spread_percent_wf: "spread_percent ob = Inr sp \<Longrightarrow> wf_pyval sp"
  by (auto simp: spread_percent_def split: if_splits)

lemma ratios_wf:
  "buy_sell_ratio ts = Inr bsr \<Longrightarrow> wf_pyval bsr"
  "bid_ask_ratio ob = Inr bar \<Longrightarrow> wf_pyval bar"
  "avg_trade_size ts = Inr avg \<Longrightarrow> wf_pyval avg"
  by (auto simp: buy_sell_ratio_value bid_ask_ratio_value avg_trade_size_value split: if_splits)

text \<open>
  Every document that \<^verbatim>\<open>create_market_snapshot\<close> returns has distinct keys and the fields
  of the schema, so the statements on documents below apply to it.
\<close>

lemma created_snapshot_wf:
  assumes "fst (create_market_snapshot m symbol client output_dir w) = Inr snapshot"
  shows "wf_pyval snapshot \<and> spec_schema snapshot"
proof -
  from assms obtain tp t24 ob ts ap bt k1 k4 kd bsr bar sp avg where
     r: "buy_sell_ratio ts = Inr bsr" "bid_ask_ratio ob = Inr bar" "avg_trade_size ts = Inr avg" and
     sp: "spread_percent ob = Inr sp" and
     s: "snapshot = snapshot_dict (isoformat (clock w (clock_reads w))) symbol tp t24 ob ts ap
                   (book_ticker_dict bt) k1 k4 kd bsr bar sp avg"
    by (rule create_success)
  show ?thesis
    unfolding s
    by (intro conjI snapshot_dict_schema
          snapshot_dict_wf [OF ratios_wf(1) [OF r(1)] ratios_wf(2) [OF r(2)]
                               spread_percent_wf [OF sp] ratios_wf(3) [OF r(3)]])
qed

text \<open>
  Claim C3, as amended. For every document \<open>d\<close> (a Python value with distinct keys in each
  dictionary), directory and symbol: when \<^verbatim>\<open>save_snapshot\<close> returns a location,
  \<^verbatim>\<open>load_snapshot\<close> of that location returns \<open>d\<close> with every tuple replaced by the list of
  the same elements, all other values, the keys and their order preserved; it returns \<open>d\<close>
  itself when \<open>d\<close> holds no tuple.
\<close>

theorem load_after_save:
  assumes wf: "wf_pyval d"
      and save: "save_snapshot d symbol dir w = (Inr p, w')"
  shows "load_snapshot p w' = (Inr (tuples_to_lists d), w') \<and>
         (tuple_free d \<longrightarrow> load_snapshot p w' = (Inr d, w'))"
proof -
  from save_snapshot_Inr [OF save]
  have "files w' p = Some (JsonText (to_json d))" "p \<notin> dirs w'"
       "\<not> list_ex (\<lambda>q. files w' q \<noteq> None) (butlast (prefixes p))"
    by blast+
  then have "load_snapshot p w' = (Inr (from_json (to_json d)), w')"
    by (simp add: load_snapshot_unfold)
  then show ?thesis
    by (simp add: from_to_json [OF wf] tuples_to_lists_id)
qed

theorem load_after_save_witness:
  "wf_pyval empty_book_snapshot \<and> tuple_free empty_book_snapshot \<and>
   fst (save_snapshot empty_book_snapshot ''ETHUSDT'' SNAPSHOT_DIR
          (empty_world\<lparr>clock_reads := Suc 0\<rparr>)) = Inr example_path \<and>
   fst (load_snapshot example_path
          (snd (save_snapshot empty_book_snapshot ''ETHUSDT'' SNAPSHOT_DIR
                  (empty_world\<lparr>clock_reads := Suc 0\<rparr>)))) = Inr empty_book_snapshot"
proof -
  have wf: "wf_pyval empty_book_snapshot"
    unfolding empty_book_snapshot_def by (rule snapshot_dict_wf) simp_all
  obtain w' where sv: "save_snapshot empty_book_snapshot ''ETHUSDT'' SNAPSHOT_DIR
        (empty_world\<lparr>clock_reads := Suc 0\<rparr>) = (Inr example_path, w')"
    using example_save by blast
  show ?thesis
    using load_after_save [OF wf sv, THEN conjunct2] wf empty_book_tuple_free
    by (simp add: sv)
qed

text \<open>
  Claim C3 as stated fails on the document of the example run: its \<^verbatim>\<open>top_bids\<close> are tuples,
  and what is loaded back from the saved file has lists in their place, so the loaded
  document is not equal to the saved one.
\<close>

theorem load_after_save_differs:
  "field example_snapshot [''depth_analysis'', ''top_bids''] =
     Some (PList [PTuple [PFloat 100, PFloat 2], PTuple [PFloat 99, PFloat 3]]) \<and>
   fst (save_snapshot example_snapshot ''ETHUSDT'' SNAPSHOT_DIR (empty_world\<lparr>clock_reads := Suc 0\<rparr>)) =
     Inr example_path \<and>
   map_sum id (\<lambda>d. field d [''depth_analysis'', ''top_bids''])
     (fst (load_snapshot example_path
        (snd (save_snapshot example_snapshot ''ETHUSDT'' SNAPSHOT_DIR
                (empty_world\<lparr>clock_reads := Suc 0\<rparr>))))) =
     Inr (Some (PList [PList [PFloat 100, PFloat 2], PList [PFloat 99, PFloat 3]])) \<and>
   fst (load_snapshot example_path
        (snd (save_snapshot example_snapshot ''ETHUSDT'' SNAPSHOT_DIR
                (empty_world\<lparr>clock_reads := Suc 0\<rparr>)))) \<noteq> Inr example_snapshot"
proof -
  obtain w' where sv: "save_snapshot example_snapshot ''ETHUSDT'' SNAPSHOT_DIR
        (empty_world\<lparr>clock_reads := Suc 0\<rparr>) = (Inr example_path, w')"
    using example_save by blast
  have wf: "wf_pyval example_snapshot"
    unfolding example_snapshot_def by (rule snapshot_dict_wf) simp_all
  from save_snapshot_Inr [OF sv]
  have "files w' example_path = Some (JsonText (to_json example_snapshot))"
       "example_path \<notin> dirs w'"
       "\<not> list_ex (\<lambda>q. files w' q \<noteq> None) (butlast (prefixes example_path))"
    by blast+
  then have ld: "load_snapshot example_path w' = (Inr (tuples_to_lists example_snapshot), w')"
    by (simp add: load_snapshot_unfold from_to_json [OF wf])
  have orig: "field example_snapshot [''depth_analysis'', ''top_bids''] =
     Some (PList [PTuple [PFloat 100, PFloat 2], PTuple [PFloat 99, PFloat 3]])"
    by (simp add: example_snapshot_def snapshot_dict_def dict_get_def levels_def example_book_def)
  have loaded: "field (tuples_to_lists example_snapshot) [''depth_analysis'', ''top_bids''] =
     Some (PList [PList [PFloat 100, PFloat 2], PList [PFloat 99, PFloat 3]])"
    by (simp add: example_snapshot_def snapshot_dict_def dict_get_def levels_def example_book_def)
  from orig loaded have "tuples_to_lists example_snapshot \<noteq> example_snapshot"
    by auto
  then show ?thesis using orig loaded by (simp add: sv ld)
qed

lemma strftime_shape:
  "list_all (\<lambda>c. c \<in> set ''0123456789'') (take 8 (strftime_compact t)) \<and>
   strftime_compact t ! 8 = CHR ''_'' \<and>
   list_all (\<lambda>c. c \<in> set ''0123456789'') (drop 9 (strftime_compact t))"
  using digit_in by (simp add: strftime_compact_def pad2_def pad4_def)

text \<open>
  Claim C7, as amended. For every document, every symbol without a slash and every
  directory such that no regular file lies at it or at one of its ancestors and the target
  is not a directory: \<^verbatim>\<open>save_snapshot\<close> creates the directory with its missing ancestors,
  writes the JSON text of the document to
  \<^verbatim>\<open><directory>/<lowercase symbol>_<YYYYMMDD_HHMMSS>.json\<close> and returns that location. The
  timestamp component is the wall clock that \<^verbatim>\<open>save_snapshot\<close> reads itself when it is
  called; no part of the location is taken from the document.
\<close>

theorem save_location:
  assumes sym: "CHR ''/'' \<notin> set symbol"
      and nofile: "\<not> list_ex (\<lambda>q. files w q \<noteq> None) (prefixes dir)"
      and nodir: "dir @ [lower symbol @ ''_'' @ strftime_compact (clock w (clock_reads w)) @
                         ''.json''] \<notin> dirs w"
  shows "fst (save_snapshot data symbol dir w) =
           Inr (dir @ [lower symbol @ ''_'' @ strftime_compact (clock w (clock_reads w)) @
                       ''.json'']) \<and>
         length (strftime_compact (clock w (clock_reads w))) = 15 \<and>
         list_all (\<lambda>c. c \<in> set ''0123456789'')
           (take 8 (strftime_compact (clock w (clock_reads w)))) \<and>
         strftime_compact (clock w (clock_reads w)) ! 8 = CHR ''_'' \<and>
         list_all (\<lambda>c. c \<in> set ''0123456789'')
           (drop 9 (strftime_compact (clock w (clock_reads w)))) \<and>
         dirs (snd (save_snapshot data symbol dir w)) = dirs w \<union> set (prefixes dir) \<and>
         files (snd (save_snapshot data symbol dir w)) =
           (files w)(dir @ [lower symbol @ ''_'' @ strftime_compact (clock w (clock_reads w)) @
                            ''.json''] \<mapsto> JsonText (to_json data)) \<and>
         clock_reads (snd (save_snapshot data symbol dir w)) = Suc (clock_reads w)"
proof -
  have nodir': "dir @ [snapshot_file symbol (clock w (clock_reads w))] \<notin> dirs w"
    using nodir by (simp add: snapshot_file_def)
  show ?thesis
    using strftime_shape [of "clock w (clock_reads w)"]
    by (simp add: save_snapshot_ok [OF sym nofile nodir'] length_strftime)
       (simp add: snapshot_file_def)
qed

theorem save_location_witness:
  "CHR ''/'' \<notin> set ''ETHUSDT'' \<and>
   \<not> list_ex (\<lambda>q. files (empty_world\<lparr>clock_reads := Suc 0\<rparr>) q \<noteq> None) (prefixes SNAPSHOT_DIR) \<and>
   fst (save_snapshot example_snapshot ''ETHUSDT'' SNAPSHOT_DIR
          (empty_world\<lparr>clock_reads := Suc 0\<rparr>)) =
     Inr [''snapshots'', ''ethusdt_20240115_103001.json''] \<and>
   dirs (snd (save_snapshot example_snapshot ''ETHUSDT'' SNAPSHOT_DIR
          (empty_world\<lparr>clock_reads := Suc 0\<rparr>))) = {[], [''snapshots'']} \<and>
   files (snd (save_snapshot example_snapshot ''ETHUSDT'' SNAPSHOT_DIR
          (empty_world\<lparr>clock_reads := Suc 0\<rparr>)))
     [''snapshots'', ''ethusdt_20240115_103001.json''] = Some (JsonText (to_json example_snapshot))"
proof -
  let ?w = "empty_world\<lparr>clock_reads := Suc 0\<rparr>"
  have sym: "CHR ''/'' \<notin> set ''ETHUSDT''" by simp
  have nofile: "\<not> list_ex (\<lambda>q. files ?w q \<noteq> None) (prefixes SNAPSHOT_DIR)"
    by (simp add: empty_world_def SNAPSHOT_DIR_def)
  have name: "lower ''ETHUSDT'' @ ''_'' @ strftime_compact (clock ?w (clock_reads ?w)) @ ''.json'' =
                ''ethusdt_20240115_103001.json''"
    using example_file by (simp add: snapshot_file_def empty_world_def)
  have nodir: "SNAPSHOT_DIR @ [lower ''ETHUSDT'' @ ''_'' @
                 strftime_compact (clock ?w (clock_reads ?w)) @ ''.json''] \<notin> dirs ?w"
    unfolding name by (simp add: empty_world_def SNAPSHOT_DIR_def)
  show ?thesis
    using save_location [OF sym nofile nodir, of example_snapshot] sym nofile
    unfolding name by (auto simp: SNAPSHOT_DIR_def empty_world_def)
qed

text \<open>
  Claim C7 as stated fails on the example run: the document carries the creation timestamp
  10:30:00, and the clock has moved on when \<^verbatim>\<open>save_snapshot\<close> reads it, so the file is
  named after 10:30:01 and no file is named after the timestamp of the document.
\<close>

theorem file_name_not_from_document:
  "fst (create_market_snapshot example_market ''ETHUSDT'' None None empty_world) =
     Inr example_snapshot \<and>
   field example_snapshot [''timestamp''] = Some (PStr ''2024-01-15T10:30:00'') \<and>
   files (snd (snd (create_market_snapshot example_market ''ETHUSDT'' None None empty_world)))
     [''snapshots'', ''ethusdt_20240115_103001.json''] =
       Some (JsonText (to_json example_snapshot)) \<and>
   files (snd (snd (create_market_snapshot example_market ''ETHUSDT'' None None empty_world)))
     [''snapshots'', ''ethusdt_20240115_103000.json''] = None"
proof -
  have stamp: "field example_snapshot [''timestamp''] = Some (PStr ''2024-01-15T10:30:00'')"
    unfolding example_snapshot_def by (rule field_timestamp)
  show ?thesis
    using stamp by (simp add: example_run_full example_path_def)
qed

text \<open>
  Claim C8, as amended. \<^verbatim>\<open>load_snapshot\<close> does not compare a stored file with the schema of
  a snapshot document. On every stored file that can be opened and whose content the JSON
  decoder accepts, it succeeds and returns the decoded value, whether the value matches the
  schema or not: a file that holds the JSON text of any Python value is loaded as that
  value (its tuples as lists). When the decoder does not accept the content, it fails with
  the exception of the decoder itself; the code has no \<^verbatim>\<open>CorruptSnapshotError\<close> to raise.
  The world is left as it is.
\<close>

theorem load_checks_no_schema:
  assumes "p \<notin> dirs w"
      and "\<not> list_ex (\<lambda>q. files w q \<noteq> None) (butlast (prefixes p))"
      and "files w p = Some content"
  shows "load_snapshot p w =
           (case content of JsonText j \<Rightarrow> Inr (from_json j) | OtherText e \<Rightarrow> Inl e, w) \<and>
         (\<forall>v. wf_pyval v \<and> content = JsonText (to_json v) \<longrightarrow>
                load_snapshot p w = (Inr (tuples_to_lists v), w))"
proof -
  have l: "load_snapshot p w =
           (case content of JsonText j \<Rightarrow> Inr (from_json j) | OtherText e \<Rightarrow> Inl e, w)"
    using assms by (simp add: load_snapshot_unfold split: file_data.splits)
  have "load_snapshot p w = (Inr (tuples_to_lists v), w)"
    if "wf_pyval v" "content = JsonText (to_json v)" for v
    using that l by (simp add: from_to_json)
  with l show ?thesis by blast
qed

theorem load_checks_no_schema_witness:
  "stray_path \<notin> dirs stray_world \<and>
   files stray_world stray_path = Some (JsonText (to_json (PList []))) \<and>
   wf_pyval (PList []) \<and> \<not> spec_schema (PList []) \<and>
   load_snapshot stray_path stray_world = (Inr (PList []), stray_world) \<and>
   garbled_path \<notin> dirs garbled_world \<and>
   files garbled_world garbled_path =
     Some (OtherText (Raised ''UnicodeDecodeError'' ''invalid start byte'')) \<and>
   load_snapshot garbled_path garbled_world =
     (Inl (Raised ''UnicodeDecodeError'' ''invalid start byte''), garbled_world)"
proof -
  have s: "stray_path \<notin> dirs stray_world"
    "\<not> list_ex (\<lambda>q. files stray_world q \<noteq> None) (butlast (prefixes stray_path))"
    "files stray_world stray_path = Some (JsonText (to_json (PList [])))"
    by (simp_all add: stray_world_def stray_path_def empty_world_def)
  have g: "garbled_path \<notin> dirs garbled_world"
    "\<not> list_ex (\<lambda>q. files garbled_world q \<noteq> None) (butlast (prefixes garbled_path))"
    "files garbled_world garbled_path =
       Some (OtherText (Raised ''UnicodeDecodeError'' ''invalid start byte''))"
    by (simp_all add: garbled_world_def garbled_path_def empty_world_def)
  have n: "\<not> spec_schema (PList [])"
    by (simp add: spec_schema_def has_keys_def)
  show ?thesis
    using load_checks_no_schema [OF s] load_checks_no_schema [OF g] s(1,3) g(1,3) n
    by simp
qed

text \<open>
  Claim C8 as stated fails: a file that holds the JSON text \<^verbatim>\<open>[]\<close> does not match the
  schema of a snapshot document, and \<^verbatim>\<open>load_snapshot\<close> returns the empty list for it.
\<close>

theorem load_accepts_other_json:
  "files stray_world stray_path = Some (JsonText (JArray [])) \<and>
   \<not> spec_schema (from_json (JArray [])) \<and>
   load_snapshot stray_path stray_world = (Inr (PList []), stray_world)"
  by (simp add: load_snapshot_unfold stray_world_def stray_path_def empty_world_def
        spec_schema_def has_keys_def)

subsection \<open>The exit status of the command line\<close>

lemma print_header_run:
  "print_header symbol mode w =
     (Inr (), w\<lparr>stdout := stdout w @ header_lines symbol mode (clock w (clock_reads w)),
                clock_reads := Suc (clock_reads w)\<rparr>)"
  by (simp add: print_header_def io_bind_def print_def now_def header_lines_def)

lemma ping_run:
  "ping m (c, w) =
     (Inr (isl (ping_resp m) = False),
      (c\<lparr>handle_open := True\<rparr>, w\<lparr>calls := calls w @ [Get ''/api/v3/ping'']\<rparr>))"
  by (simp add: ping_def api_get_def split: sum.splits)

lemma snapshot_body_no_ping:
  assumes "ping_resp m = Inl e"
  shows "snapshot_body m symbol (c, w) =
     (Inr False, (c\<lparr>handle_open := True\<rparr>,
                  w\<lparr>calls := calls w @ [Get ''/api/v3/ping''],
                    stdout := stdout w @ [cannot_connect]\<rparr>))"
  using assms
  by (simp add: snapshot_body_def io_bind_def ping_run print_text_def on_world_def print_def
        io_return_def cannot_connect_def)

lemma info_body_no_ping:
  assumes "ping_resp m = Inl e"
  shows "info_body m symbol (c, w) =
     (Inr False, (c\<lparr>handle_open := True\<rparr>,
                  w\<lparr>calls := calls w @ [Get ''/api/v3/ping''],
                    stdout := stdout w @ [cannot_connect]\<rparr>))"
  using assms
  by (simp add: info_body_def io_bind_def ping_run print_text_def on_world_def print_def
        io_return_def cannot_connect_def)

lemma cmd_no_ping:
  assumes "ping_resp m = Inl e"
  shows "cmd_snapshot m symbol w =
     (Inr (), w\<lparr>stdout := stdout w @ header_lines symbol ''snapshot'' (clock w (clock_reads w)) @
                            [cannot_connect],
                clock_reads := Suc (clock_reads w),
                calls := calls w @ [Get ''/api/v3/ping'', Close]\<rparr>)"
    and "cmd_info m symbol w =
     (Inr (), w\<lparr>stdout := stdout w @ header_lines symbol ''info'' (clock w (clock_reads w)) @
                            [cannot_connect],
                clock_reads := Suc (clock_reads w),
                calls := calls w @ [Get ''/api/v3/ping'', Close]\<rparr>)"
  by (simp_all add: cmd_snapshot_def cmd_info_def io_bind_def print_header_run with_client_def
        try_finally_def snapshot_body_no_ping [OF assms] info_body_no_ping [OF assms] close_def
        io_return_def)

lemma main_no_ping:
  assumes ping: "ping_resp m = Inl e"
      and args: "2 \<le> length argv" "upper (argv ! 1) \<notin> set [''HELP'', ''-H'', ''--HELP'']"
  shows "fst (main m argv w) = 0 \<and>
         last (stdout (snd (main m argv w))) = cannot_connect \<and>
         (\<forall>x. Err x \<notin> set (drop (length (stdout w)) (stdout (snd (main m argv w)))))"
  using args
  by (auto simp: main_def Let_def cmd_no_ping [OF ping] header_lines_def cannot_connect_def)

lemma io_bind_fail: "fst (f s) = Inl e \<Longrightarrow> fst (io_bind f g s) = Inl e"
  by (cases "f s") (auto simp: io_bind_def split: sum.splits)

lemma snapshot_body_fetch_error:
  assumes ping: "ping_resp m = Inr u"
      and err: "first_error (fetch_errors m symbol) = Some e"
  shows "fst (snapshot_body m symbol (c, w)) = Inl e"
  using ping
  by (simp add: snapshot_body_def io_bind_def ping_run print_text_def on_world_def print_def
        create_market_snapshot_unfold snapshot_try_fetch_error [OF err] SNAPSHOT_DIR_def)

lemma cmd_snapshot_fetch_error:
  assumes ping: "ping_resp m = Inr u"
      and err: "first_error (fetch_errors m symbol) = Some e"
  shows "fst (cmd_snapshot m symbol w) = Inl e"
proof -
  have "fst (with_client (snapshot_body m symbol) w') = Inl e" for w'
    using snapshot_body_fetch_error [OF ping err, of "new_client None" w']
    by (auto simp: with_client_def try_finally_def split: prod.splits)
  then have "fst (io_bind (with_client (snapshot_body m symbol))
                    (\<lambda>completed. if completed then print_footer else io_return ()) w') = Inl e"
    for w'
    by (rule io_bind_fail)
  moreover have "cmd_snapshot m symbol w =
      io_bind (with_client (snapshot_body m symbol))
        (\<lambda>completed. if completed then print_footer else io_return ())
        (w\<lparr>stdout := stdout w @ header_lines symbol ''snapshot'' (clock w (clock_reads w)),
           clock_reads := Suc (clock_reads w)\<rparr>)"
    unfolding cmd_snapshot_def by (subst io_bind_def) (simp add: print_header_run)
  ultimately show ?thesis by simp
qed

text \<open>
  The part of claim C9 that holds: when the connectivity check passes and a fetch of the
  snapshot raises, the process prints the error line and exits with status 1.
\<close>

lemma main_fetch_error:
  assumes ping: "ping_resp m = Inr u"
      and args: "2 \<le> length argv" "upper (argv ! 1) \<notin> set [''HELP'', ''-H'', ''--HELP'']"
                "(if length argv > 2 then lower (argv ! 2) else ''snapshot'') \<noteq> ''info''"
      and err: "first_error (fetch_errors m (upper (argv ! 1))) = Some e"
  shows "fst (main m argv w) = 1 \<and> Err e \<in> set (stdout (snd (main m argv w)))"
proof -
  obtain w' where "cmd_snapshot m (upper (argv ! 1)) w = (Inl e, w')"
    using cmd_snapshot_fetch_error [OF ping err, of w]
    by (cases "cmd_snapshot m (upper (argv ! 1)) w") auto
  then show ?thesis
    using args by (auto simp: main_def Let_def print_def)
qed

text \<open>
  Claim C9, at a run whose connectivity check fails: \<^verbatim>\<open>market-snapshot ETHUSDT\<close> against a
  server that cannot be reached prints the header and the line
  \<^verbatim>\<open>Error: Cannot connect to Binance API\<close>, then \<^verbatim>\<open>cmd_snapshot\<close> returns and the process
  exits with status 0, not with a non-zero status.
\<close>

theorem connectivity_failure_exits_zero:
  "ping_resp unreachable_market = Inl ConnectError \<and>
   fst (main unreachable_market [''market-snapshot'', ''ETHUSDT''] empty_world) = 0 \<and>
   stdout (snd (main unreachable_market [''market-snapshot'', ''ETHUSDT''] empty_world)) =
     [Text [], Text (replicate 80 (CHR ''='')), Text ''  MARKET SNAPSHOT - ETHUSDT'',
      Text (replicate 80 (CHR ''='')), Text [], Text ''  Started: 2024-01-15 10:30:00'',
      Text ''  Mode: snapshot'', Text [], Text (replicate 80 (CHR ''-'')),
      Text ''  Error: Cannot connect to Binance API'']"
proof -
  have ping: "ping_resp unreachable_market = Inl ConnectError"
    by (simp add: unreachable_market_def)
  have up: "upper ''ETHUSDT'' = ''ETHUSDT''"
    by (simp add: upper_def upper_char_def)
  have t: "strftime_display (example_clock 0) = ''2024-01-15 10:30:00''"
    by (simp add: strftime_display_def example_clock_def pad2_def pad4_def digit_def)
  show ?thesis
    using ping
    by (simp add: main_def Let_def up cmd_no_ping [OF ping] header_lines_def cannot_connect_def
          empty_world_def t)
qed

end
